theory Spec2Isabelle
  imports Complex_Main "HOL-Library.Log_Nat"
begin

section \<open>JavaScript numbers\<close>

text \<open>
  The server computes every amount with JavaScript numbers, that is IEEE 754 binary64
  values. A number is modelled as a finite real, one of the two infinities, or NaN.
  The two zeros are identified: the program never divides by a computed value, and
  \<open>-0\<close> compares, converts to a boolean and prints like \<open>0\<close>.
  Every arithmetic operation computes the exact real result and rounds it to the
  nearest binary64 value, ties to even (\<open>round_double\<close>).
\<close>

datatype jsnum = Fin real | PosInf | NegInf | NaN

definition pow2 :: "int \<Rightarrow> real" where
  "pow2 e = (if 0 \<le> e then 2 ^ nat e else 1 / 2 ^ nat (- e))"

text \<open>\<open>binexp a\<close> is the binary exponent of \<open>a > 0\<close>: \<open>2 ^ e \<le> a < 2 ^ (e + 1)\<close>.\<close>

definition binexp :: "real \<Rightarrow> int" where
  "binexp a =
     (if 1 \<le> a then int (floorlog 2 (nat \<lfloor>a\<rfloor>)) - 1
      else let k = int (floorlog 2 (nat \<lfloor>1 / a\<rfloor>)) - 1
           in if a * pow2 k = 1 then - k else - k - 1)"

definition round_half_even :: "real \<Rightarrow> int" where
  "round_half_even x =
     (let f = \<lfloor>x\<rfloor>; d = x - of_int f
      in if d < 1 / 2 then f else if 1 / 2 < d then f + 1 else if even f then f else f + 1)"

text \<open>
  Rounding to 53 significant bits; below \<open>2 ^ - 1022\<close> the spacing stays that of the
  subnormal numbers.
\<close>

definition round_double :: "real \<Rightarrow> real" where
  "round_double x =
     (if x = 0 then 0
      else let e = max (binexp \<bar>x\<bar>) (- 1022); q = pow2 (e - 52)
           in sgn x * of_int (round_half_even (\<bar>x\<bar> / q)) * q)"

text \<open>The Number value of a real: rounded, and infinite once the rounded value reaches \<open>2 ^ 1024\<close>.\<close>

definition fl :: "real \<Rightarrow> jsnum" where
  "fl x =
     (let r = round_double x
      in if 2 ^ 1024 \<le> r then PosInf else if r \<le> - (2 ^ 1024) then NegInf else Fin r)"

text \<open>The sign of a number that is not NaN.\<close>

fun js_sign :: "jsnum \<Rightarrow> int" where
  "js_sign (Fin x) = (if x < 0 then - 1 else if x = 0 then 0 else 1)"
| "js_sign PosInf = 1"
| "js_sign NegInf = - 1"
| "js_sign NaN = 0"

definition signed_inf :: "int \<Rightarrow> jsnum" where
  "signed_inf s = (if s = 0 then NaN else if 0 < s then PosInf else NegInf)"

text \<open>The operators \<open>*\<close>, \<open>/\<close> and \<open>-\<close> on numbers.\<close>

fun js_mul :: "jsnum \<Rightarrow> jsnum \<Rightarrow> jsnum" where
  "js_mul NaN b = NaN"
| "js_mul a NaN = NaN"
| "js_mul (Fin x) (Fin y) = fl (x * y)"
| "js_mul a b = signed_inf (js_sign a * js_sign b)"

fun js_div :: "jsnum \<Rightarrow> jsnum \<Rightarrow> jsnum" where
  "js_div NaN b = NaN"
| "js_div a NaN = NaN"
| "js_div (Fin x) (Fin y) = (if y = 0 then signed_inf (js_sign (Fin x)) else fl (x / y))"
| "js_div (Fin x) b = Fin 0"
| "js_div a (Fin y) = signed_inf (js_sign a * (if y < 0 then - 1 else 1))"
| "js_div a b = NaN"

fun js_sub :: "jsnum \<Rightarrow> jsnum \<Rightarrow> jsnum" where
  "js_sub NaN b = NaN"
| "js_sub a NaN = NaN"
| "js_sub (Fin x) (Fin y) = fl (x - y)"
| "js_sub (Fin x) PosInf = NegInf"
| "js_sub (Fin x) NegInf = PosInf"
| "js_sub PosInf PosInf = NaN"
| "js_sub NegInf NegInf = NaN"
| "js_sub a b = a"

text \<open>The comparisons \<open><\<close> and \<open><=\<close>: false as soon as one side is NaN.\<close>

fun js_lt :: "jsnum \<Rightarrow> jsnum \<Rightarrow> bool" where
  "js_lt NaN b = False"
| "js_lt a NaN = False"
| "js_lt (Fin x) (Fin y) = (x < y)"
| "js_lt a PosInf = (a \<noteq> PosInf)"
| "js_lt NegInf b = (b \<noteq> NegInf)"
| "js_lt a b = False"

definition js_le :: "jsnum \<Rightarrow> jsnum \<Rightarrow> bool" where
  "js_le a b = (a \<noteq> NaN \<and> b \<noteq> NaN \<and> (js_lt a b \<or> a = b))"

text \<open>\<open>Math.min\<close> of two arguments: NaN if either is NaN.\<close>

definition Math_min :: "jsnum \<Rightarrow> jsnum \<Rightarrow> jsnum" where
  "Math_min a b = (if a = NaN \<or> b = NaN then NaN else if js_lt b a then b else a)"

text \<open>A numeric literal of the source denotes the nearest binary64 value.\<close>

definition js_lit :: "real \<Rightarrow> jsnum" where
  "js_lit x = fl x"

section \<open>Values of a JSON request body\<close>

text \<open>
  A field of the request body is absent (\<open>undefined\<close> after destructuring) or holds a
  JSON value. Strings are ASCII. A plain object is kept without its content: it is truthy
  and converts to a string that holds no number. Arrays are left out.
\<close>

datatype jsval = Undefined | Null | Bool bool | Num jsnum | Str string | Object

text \<open>Conversion to a boolean, as \<open>if (v)\<close> and \<open>v || w\<close> perform it.\<close>

fun truthy :: "jsval \<Rightarrow> bool" where
  "truthy Undefined = False"
| "truthy Null = False"
| "truthy (Bool b) = b"
| "truthy (Num n) = (n \<noteq> NaN \<and> n \<noteq> Fin 0)"
| "truthy (Str s) = (s \<noteq> [])"
| "truthy Object = True"

definition js_or :: "jsval \<Rightarrow> jsval \<Rightarrow> jsval" where
  "js_or a b = (if truthy a then a else b)"

text \<open>\<open>n || d\<close> where both operands are numbers.\<close>

definition num_or :: "jsnum \<Rightarrow> jsnum \<Rightarrow> jsnum" where
  "num_or n d = (if truthy (Num n) then n else d)"

subsection \<open>parseFloat\<close>

definition is_digit :: "char \<Rightarrow> bool" where
  "is_digit c = (c \<in> set ''0123456789'')"

definition is_space :: "char \<Rightarrow> bool" where
  "is_space c = (c \<in> set [CHR 0x09, CHR 0x0A, CHR 0x0B, CHR 0x0C, CHR 0x0D, CHR '' ''])"

text \<open>The value of a digit: its position in \<open>0123456789\<close>.\<close>

definition digit_val :: "char \<Rightarrow> nat" where
  "digit_val c = length (takeWhile (\<lambda>d. d \<noteq> c) ''0123456789'')"

definition digits_val :: "string \<Rightarrow> nat" where
  "digits_val ds = foldl (\<lambda>n c. 10 * n + digit_val c) 0 ds"

definition pow10 :: "int \<Rightarrow> real" where
  "pow10 e = (if 0 \<le> e then 10 ^ nat e else 1 / 10 ^ nat (- e))"

text \<open>The exponent part \<open>e\<close>, \<open>e+\<close> or \<open>e-\<close> followed by digits; anything else adds nothing.\<close>

definition exponent_part :: "string \<Rightarrow> int" where
  "exponent_part r =
     (case r of
        [] \<Rightarrow> 0
      | c # r1 \<Rightarrow>
          if c = CHR ''e'' \<or> c = CHR ''E'' then
            (case r1 of
               [] \<Rightarrow> 0
             | s # r2 \<Rightarrow>
                 if s = CHR ''-'' then - int (digits_val (takeWhile is_digit r2))
                 else if s = CHR ''+'' then int (digits_val (takeWhile is_digit r2))
                 else int (digits_val (takeWhile is_digit r1)))
          else 0)"

text \<open>
  \<open>parseFloat\<close> on a string: leading white space is skipped, then the longest prefix
  that is a decimal literal is read; NaN when there is none.
\<close>

definition parseFloat_string :: "string \<Rightarrow> jsnum" where
  "parseFloat_string s =
     (let t = dropWhile is_space s;
          neg = (t \<noteq> [] \<and> hd t = CHR ''-'');
          u = (if t \<noteq> [] \<and> (hd t = CHR ''-'' \<or> hd t = CHR ''+'') then tl t else t)
      in if take 8 u = ''Infinity'' then (if neg then NegInf else PosInf)
         else
           let ip = takeWhile is_digit u;
               r1 = dropWhile is_digit u;
               dot = (r1 \<noteq> [] \<and> hd r1 = CHR ''.'');
               fp = (if dot then takeWhile is_digit (tl r1) else []);
               r2 = (if dot then dropWhile is_digit (tl r1) else r1)
           in if ip = [] \<and> fp = [] then NaN
              else
                let v = real (digits_val (ip @ fp)) * pow10 (exponent_part r2 - int (length fp))
                in fl (if neg then - v else v))"

text \<open>
  \<open>parseFloat\<close> converts its argument to a string first. A number prints as a literal
  that reads back as the same number, so a number is returned unchanged.
\<close>

fun parseFloat :: "jsval \<Rightarrow> jsnum" where
  "parseFloat (Num n) = n"
| "parseFloat (Str s) = parseFloat_string s"
| "parseFloat v = NaN"

subsection \<open>Number.prototype.toFixed\<close>

function decimal :: "nat \<Rightarrow> string" where
  "decimal n = (if n < 10 then [''0123456789'' ! n] else decimal (n div 10) @ [''0123456789'' ! (n mod 10)])"
  by pat_completeness auto
termination
  by (relation "measure id") auto

declare decimal.simps [simp del]

text \<open>
  The text of a number. From \<open>10 ^ 21\<close> on, \<open>toFixed\<close> prints in exponent notation;
  those digits are not computed here, the text is kept as \<open>Scientific\<close>.
\<close>

datatype numtext = Text string | Scientific real

text \<open>The last \<open>d\<close> decimal digits of \<open>m\<close>, with leading zeros.\<close>

fun frac_digits :: "nat \<Rightarrow> nat \<Rightarrow> string" where
  "frac_digits d m =
     (if d = 0 then [] else frac_digits (d - 1) (m div 10) @ [''0123456789'' ! (m mod 10)])"

declare frac_digits.simps [simp del]

text \<open>
  The digits of \<open>n / 10 ^ d\<close> for a natural number \<open>n\<close>: the integer part, and after a
  point exactly \<open>d\<close> fraction digits.
\<close>

definition fixed_digits :: "nat \<Rightarrow> nat \<Rightarrow> string" where
  "fixed_digits d n =
     decimal (n div 10 ^ d) @ (if d = 0 then [] else CHR ''.'' # frac_digits d (n mod 10 ^ d))"

fun toFixed :: "nat \<Rightarrow> jsnum \<Rightarrow> numtext" where
  "toFixed d NaN = Text ''NaN''"
| "toFixed d PosInf = Text ''Infinity''"
| "toFixed d NegInf = Text ''-Infinity''"
| "toFixed d (Fin x) =
     (if 10 ^ 21 \<le> \<bar>x\<bar> then Scientific x
      else Text ((if x < 0 then ''-'' else '''') @ fixed_digits d (nat \<lfloor>\<bar>x\<bar> * 10 ^ d + 1 / 2\<rfloor>)))"

section \<open>The ethers library, as far as the server uses it\<close>

text \<open>A thrown error: its \<open>message\<close> and its \<open>code\<close>, when it has one.\<close>

datatype exn = Exn string "string option"

fun message :: "exn \<Rightarrow> string" where
  "message (Exn m c) = m"

fun code :: "exn \<Rightarrow> string option" where
  "code (Exn m c) = c"

text \<open>
  \<open>ethers.parseEther\<close> accepts an optional minus sign, digits, an optional point and
  digits, with at least one digit; fraction digits after the eighteenth must be zeros.
  The result is the amount in wei.
\<close>

definition parseEther :: "numtext \<Rightarrow> exn + int" where
  "parseEther t =
     (case t of
        Scientific x \<Rightarrow> Inl (Exn ''invalid FixedNumber string value'' (Some ''INVALID_ARGUMENT''))
      | Text s \<Rightarrow>
          let neg = (s \<noteq> [] \<and> hd s = CHR ''-'');
              u = (if neg then tl s else s);
              whole = takeWhile is_digit u;
              r = dropWhile is_digit u;
              dot = (r \<noteq> [] \<and> hd r = CHR ''.'');
              frac = (if dot then takeWhile is_digit (tl r) else []);
              rest = (if dot then dropWhile is_digit (tl r) else r)
          in if rest = [] \<and> whole @ frac \<noteq> [] then
               if filter (\<lambda>c. c \<noteq> CHR ''0'') (drop 18 frac) \<noteq> []
               then Inl (Exn ''too many decimals for format'' (Some ''NUMERIC_FAULT''))
               else
                 let v = int (digits_val (whole @ take 18 frac)) * 10 ^ (18 - length (take 18 frac))
                 in Inr (if neg then - v else v)
             else Inl (Exn ''invalid FixedNumber string value'' (Some ''INVALID_ARGUMENT'')))"

text \<open>
  \<open>parseFloat(ethers.formatEther(balance))\<close>: the balance in wei is printed as a decimal
  number of ether, which \<open>parseFloat\<close> reads as the nearest Number.
\<close>

definition balanceETH_of :: "nat \<Rightarrow> jsnum" where
  "balanceETH_of balance = fl (real balance / 10 ^ 18)"

text \<open>The fee data of a provider: each field is \<open>null\<close> or a bigint.\<close>

record feeData =
  gasPrice :: "int option"
  maxFeePerGas :: "int option"
  maxPriorityFeePerGas :: "int option"

text \<open>A bigint or \<open>null\<close> in a condition: \<open>null\<close> and \<open>0n\<close> are falsy.\<close>

definition truthy_bigint :: "int option \<Rightarrow> bool" where
  "truthy_bigint v = (case v of None \<Rightarrow> False | Some n \<Rightarrow> n \<noteq> 0)"

record receipt =
  blockNumber :: nat
  gasUsed :: nat

text \<open>A key of an object literal: absent, or present with a value.\<close>

datatype 'a field = Absent | Present 'a

text \<open>The transaction request that the server builds.\<close>

record tx =
  tx_to :: jsval
  tx_value :: int
  tx_nonce :: nat
  tx_gasLimit :: nat
  tx_gasPrice :: "int option field"
  tx_maxFeePerGas :: "int option field"
  tx_maxPriorityFeePerGas :: "int option field"
  tx_type :: "nat field"
  tx_chainId :: nat

text \<open>How a promise settles: fulfilled or rejected after so many milliseconds, or never.\<close>

datatype settle = Resolves nat | Rejects nat | Pending

record wallet =
  address :: string

text \<open>
  Everything outside the process. \<open>PRIVATE_KEY\<close> is the environment variable
  \<open>TREASURY_PRIVATE_KEY\<close>. \<open>Wallet_address\<close> is \<open>new ethers.Wallet(key, provider)\<close>:
  the address of the key, or \<open>None\<close> when the constructor throws on a malformed key.
  The other fields are the answers of the network, given the endpoint: every awaited call
  settles, fulfilled (\<open>Inr\<close>) or rejected (\<open>Inl\<close>), except the liveness probe, which
  carries its delay.
\<close>

record world =
  PRIVATE_KEY :: "string option"
  Wallet_address :: "string \<Rightarrow> string option"
  getBlockNumber :: "string \<Rightarrow> settle"
  getBalance :: "string \<Rightarrow> string \<Rightarrow> exn + nat"
  getFeeData :: "string \<Rightarrow> exn + feeData"
  getTransactionCount :: "string \<Rightarrow> string \<Rightarrow> exn + nat"
  signTransaction :: "wallet \<Rightarrow> tx \<Rightarrow> exn + string"
  broadcastTransaction :: "string \<Rightarrow> string \<Rightarrow> exn + string"
  wait :: "string \<Rightarrow> string \<Rightarrow> exn + receipt"

section \<open>The server\<close>

definition TREASURY :: string where
  "TREASURY = ''0x4024Fd78E2AD5532FBF3ec2B3eC83870FAe45fC7''"

definition RPC_URLS :: "string list" where
  "RPC_URLS =
     [''https://ethereum-rpc.publicnode.com'',
      ''https://eth.drpc.org'',
      ''https://rpc.ankr.com/eth'',
      ''https://eth.llamarpc.com'',
      ''https://1rpc.io/eth'',
      ''https://cloudflare-eth.com'']"

text \<open>The two global variables, \<open>null\<close> at start.\<close>

record state =
  provider :: "string option"
  wallet :: "wallet option"

subsection \<open>initProvider\<close>

text \<open>
  \<open>Promise.race\<close> of the probe against a timer that rejects after \<open>ms\<close> milliseconds:
  fulfilled only if the probe is fulfilled first.
\<close>

definition race :: "settle \<Rightarrow> nat \<Rightarrow> bool" where
  "race p ms = (case p of Resolves t \<Rightarrow> t < ms | Rejects t \<Rightarrow> False | Pending \<Rightarrow> False)"

text \<open>
  The probe of one endpoint (line 35): whether the race against the 5000 ms timer is won,
  and the entry it leaves in the log of probes, the endpoint with the timeout.
\<close>

definition probe :: "world \<Rightarrow> string \<Rightarrow> bool \<times> (string \<times> nat)" where
  "probe w rpc = (race (getBlockNumber w rpc) 5000, (rpc, 5000))"

text \<open>
  The loop over the endpoints (lines 32 to 41). The result is the returned boolean, the
  globals, and the log of the probes made. An iteration assigns \<open>provider\<close> first; a
  failed probe or a throwing wallet constructor lands in the \<open>catch\<close>, which goes on to
  the next endpoint.
\<close>

fun initProvider_loop :: "world \<Rightarrow> string list \<Rightarrow> state \<Rightarrow> bool \<times> state \<times> (string \<times> nat) list" where
  "initProvider_loop w [] st = (False, st, [])"
| "initProvider_loop w (rpc # rest) st =
     (let st1 = st\<lparr>provider := Some rpc\<rparr>;
          p = probe w rpc;
          continue = (case initProvider_loop w rest st1 of (ok, st', probes) \<Rightarrow> (ok, st', snd p # probes))
      in if \<not> fst p then continue
         else
           (case PRIVATE_KEY w of
              None \<Rightarrow> (True, st1, [snd p])
            | Some key \<Rightarrow>
                if key = [] then (True, st1, [snd p])
                else
                  (case Wallet_address w key of
                     None \<Rightarrow> continue
                   | Some a \<Rightarrow> (True, st1\<lparr>wallet := Some \<lparr>address = a\<rparr>\<rparr>, [snd p]))))"

definition initProvider :: "world \<Rightarrow> state \<Rightarrow> bool \<times> state \<times> (string \<times> nat) list" where
  "initProvider w st = initProvider_loop w RPC_URLS st"

subsection \<open>universalConvert\<close>

text \<open>The fields that the handler reads from the request body.\<close>

record request =
  amount :: jsval
  amountETH :: jsval
  amountUSD :: jsval
  value' :: jsval
  eth :: jsval
  to :: jsval
  toAddress :: jsval
  treasury :: jsval
  recipient :: jsval
  coinbaseWallet :: jsval
  feeRecipient :: jsval
  percentage :: jsval

text \<open>The JSON bodies that the handler sends, and the response with its status.\<close>

record success_body =
  res_success :: bool
  res_txHash :: string
  res_hash :: string
  res_transactionHash :: string
  res_from :: string
  res_to :: jsval
  res_amount :: jsnum
  res_amountUSD :: jsnum
  res_blockNumber :: nat
  res_gasUsed :: string

datatype body =
    Error_body string
  | Error_code_body string "string option"
  | Error_balance_body string numtext
  | Error_balance_hint_body string numtext string
  | Success_body success_body

record response =
  status :: nat
  body :: body

text \<open>The destination (line 60): the first truthy field, in this order, else the treasury.\<close>

definition destination :: "request \<Rightarrow> jsval" where
  "destination req =
     js_or (js_or (js_or (js_or (js_or (js_or (to req) (toAddress req)) (treasury req))
       (recipient req)) (coinbaseWallet req)) (feeRecipient req)) (Str TREASURY)"

text \<open>The amount (lines 71 to 78), from the request and the balance in ether.\<close>

definition ethAmount :: "request \<Rightarrow> jsnum \<Rightarrow> jsnum" where
  "ethAmount req balanceETH =
     (if truthy (percentage req) then
        js_sub
          (js_div (js_mul balanceETH (Math_min (js_lit 100) (parseFloat (percentage req))))
             (js_lit 100))
          (js_lit (2 / 1000))
      else if truthy (amountUSD req) then
        Math_min (js_div (parseFloat (amountUSD req)) (js_lit 3450))
          (js_sub balanceETH (js_lit (2 / 1000)))
      else
        Math_min
          (num_or
             (parseFloat (js_or (js_or (js_or (amountETH req) (amount req)) (value' req)) (eth req)))
             (js_lit (1 / 100)))
          (js_sub balanceETH (js_lit (2 / 1000))))"

text \<open>
  The two responses with status 400 (lines 67 and 81 to 85); both report the balance with
  six decimals.
\<close>

definition gas_response :: "jsnum \<Rightarrow> response" where
  "gas_response balanceETH =
     \<lparr>status = 400,
      body = Error_balance_body ''Need 0.002 ETH for gas'' (toFixed 6 balanceETH)\<rparr>"

definition insufficient_response :: "jsnum \<Rightarrow> response" where
  "insufficient_response balanceETH =
     \<lparr>status = 400,
      body = Error_balance_hint_body ''Insufficient after gas reserve'' (toFixed 6 balanceETH)
        ''Gas is paid during execution - need 0.002 ETH minimum''\<rparr>"

text \<open>
  The two balance checks around the amount (lines 66 to 86): a response with status 400,
  or the amount that goes on to the transaction.
\<close>

definition resolveAmount :: "request \<Rightarrow> jsnum \<Rightarrow> response + jsnum" where
  "resolveAmount req balanceETH =
     (if js_lt balanceETH (js_lit (2 / 1000)) then Inl (gas_response balanceETH)
      else if js_le (ethAmount req balanceETH) (js_lit 0) then Inl (insufficient_response balanceETH)
      else Inr (ethAmount req balanceETH))"

text \<open>
  The transaction (lines 94 to 115): dynamic fees when the fee data has a truthy
  \<open>maxFeePerGas\<close>.
\<close>

definition buildTx :: "jsval \<Rightarrow> int \<Rightarrow> nat \<Rightarrow> feeData \<Rightarrow> tx" where
  "buildTx dest v nonce fd =
     (if truthy_bigint (maxFeePerGas fd) then
        \<lparr>tx_to = dest, tx_value = v, tx_nonce = nonce, tx_gasLimit = 21000,
         tx_gasPrice = Absent,
         tx_maxFeePerGas = Present (maxFeePerGas fd),
         tx_maxPriorityFeePerGas = Present (maxPriorityFeePerGas fd),
         tx_type = Present 2, tx_chainId = 1\<rparr>
      else
        \<lparr>tx_to = dest, tx_value = v, tx_nonce = nonce, tx_gasLimit = 21000,
         tx_gasPrice = Present (gasPrice fd),
         tx_maxFeePerGas = Absent,
         tx_maxPriorityFeePerGas = Absent,
         tx_type = Absent, tx_chainId = 1\<rparr>)"

text \<open>The \<open>catch\<close> around the whole handler (lines 135 to 138).\<close>

definition catch :: "exn \<Rightarrow> response" where
  "catch e = \<lparr>status = 500, body = Error_code_body (message e) (code e)\<rparr>"

text \<open>
  The steps after the amount is accepted (lines 91 to 134): fee data, nonce, transaction,
  signature, broadcast, one confirmation, and the success body.
\<close>

definition submit :: "world \<Rightarrow> string \<Rightarrow> wallet \<Rightarrow> jsval \<Rightarrow> jsnum \<Rightarrow> response" where
  "submit w url wl dest amt =
     (case getFeeData w url of
        Inl e \<Rightarrow> catch e
      | Inr fd \<Rightarrow>
     (case getTransactionCount w url (address wl) of
        Inl e \<Rightarrow> catch e
      | Inr nonce \<Rightarrow>
     (case parseEther (toFixed 8 amt) of
        Inl e \<Rightarrow> catch e
      | Inr v \<Rightarrow>
     (case signTransaction w wl (buildTx dest v nonce fd) of
        Inl e \<Rightarrow> catch e
      | Inr signedTx \<Rightarrow>
     (case broadcastTransaction w url signedTx of
        Inl e \<Rightarrow> catch e
      | Inr h \<Rightarrow>
     (case wait w url h of
        Inl e \<Rightarrow> catch e
      | Inr rc \<Rightarrow>
          \<lparr>status = 200,
           body = Success_body
             \<lparr>res_success = True, res_txHash = h, res_hash = h, res_transactionHash = h,
              res_from = address wl, res_to = dest, res_amount = amt,
              res_amountUSD = js_mul amt (js_lit 3450),
              res_blockNumber = blockNumber rc, res_gasUsed = decimal (gasUsed rc)\<rparr>\<rparr>))))))"

text \<open>Line 56 of the handler: \<open>if (!provider || !wallet) await initProvider()\<close>.\<close>

definition ensure :: "world \<Rightarrow> state \<Rightarrow> state" where
  "ensure w st =
     (if provider st = None \<or> wallet st = None then fst (snd (initProvider w st)) else st)"

text \<open>
  The handler (lines 48 to 139). It returns the response and the globals it leaves. With a wallet there is
  a provider, since \<open>initProvider\<close> assigns the provider first; reading the balance from a
  \<open>null\<close> provider would throw into the \<open>catch\<close>.
\<close>

definition universalConvert :: "world \<Rightarrow> state \<Rightarrow> request \<Rightarrow> response \<times> state" where
  "universalConvert w st req =
     (case wallet (ensure w st) of
        None \<Rightarrow>
          (\<lparr>status = 500, body = Error_body ''Wallet not configured - set TREASURY_PRIVATE_KEY''\<rparr>,
           ensure w st)
      | Some wl \<Rightarrow>
          (case provider (ensure w st) of
             None \<Rightarrow> (catch (Exn ''Cannot read properties of null'' None), ensure w st)
           | Some url \<Rightarrow>
               (case getBalance w url (address wl) of
                  Inl e \<Rightarrow> (catch e, ensure w st)
                | Inr balance \<Rightarrow>
                    (case resolveAmount req (balanceETH_of balance) of
                       Inl r \<Rightarrow> (r, ensure w st)
                     | Inr amt \<Rightarrow> (submit w url wl (destination req) amt, ensure w st)))))"

section \<open>Reference inputs\<close>

text \<open>The request body \<open>{}\<close>.\<close>

definition empty_body :: request where
  "empty_body =
     \<lparr>amount = Undefined, amountETH = Undefined, amountUSD = Undefined, value' = Undefined,
      eth = Undefined, to = Undefined, toAddress = Undefined, treasury = Undefined,
      recipient = Undefined, coinbaseWallet = Undefined, feeRecipient = Undefined,
      percentage = Undefined\<rparr>"

text \<open>The globals before the first call, and once the first endpoint is bound.\<close>

definition start :: state where
  "start = \<lparr>provider = None, wallet = None\<rparr>"

definition ready :: state where
  "ready =
     \<lparr>provider = Some ''https://ethereum-rpc.publicnode.com'',
      wallet = Some \<lparr>address = ''0xSigner''\<rparr>\<rparr>"

text \<open>
  A world in which everything answers: a well-formed key, every endpoint alive after
  100 ms, the given balance in wei, dynamic fee data, nonce 7, and a transaction mined
  in block 19000000.
\<close>

definition calm_world :: "nat \<Rightarrow> world" where
  "calm_world balance =
     \<lparr>PRIVATE_KEY = Some ''0x01'',
      Wallet_address = (\<lambda>key. Some ''0xSigner''),
      getBlockNumber = (\<lambda>rpc. Resolves 100),
      getBalance = (\<lambda>rpc a. Inr balance),
      getFeeData = (\<lambda>rpc. Inr \<lparr>gasPrice = Some 30, maxFeePerGas = Some 50, maxPriorityFeePerGas = Some 2\<rparr>),
      getTransactionCount = (\<lambda>rpc a. Inr 7),
      signTransaction = (\<lambda>wl t. Inr ''0xsigned''),
      broadcastTransaction = (\<lambda>rpc s. Inr ''0xhash''),
      wait = (\<lambda>rpc h. Inr \<lparr>blockNumber = 19000000, gasUsed = 21000\<rparr>)\<rparr>"

text \<open>The same world, where the first two endpoints never answer.\<close>

definition slow_world :: world where
  "slow_world =
     (calm_world 0)
       \<lparr>getBlockNumber :=
          (\<lambda>rpc. if rpc = ''https://ethereum-rpc.publicnode.com'' \<or> rpc = ''https://eth.drpc.org''
                 then Pending else Resolves 100)\<rparr>"

text \<open>The same world, with a key that the wallet constructor rejects.\<close>

definition bad_key_world :: world where
  "bad_key_world =
     (calm_world 0)\<lparr>PRIVATE_KEY := Some ''not-a-key'', Wallet_address := (\<lambda>key. None)\<rparr>"

section \<open>The specification's reading of the resolvers\<close>

text \<open>
  The first non-empty value of a list of fields, else a default. A value is empty when it
  is falsy: absent, \<open>null\<close>, the empty string, and also \<open>false\<close>, \<open>0\<close> and NaN.
\<close>

definition first_nonempty :: "jsval list \<Rightarrow> jsval \<Rightarrow> jsval" where
  "first_nonempty vs d = (case find truthy vs of None \<Rightarrow> d | Some v \<Rightarrow> v)"

text \<open>
  The native amount as the specification words it: the first non-empty value among
  \<open>amountETH\<close>, \<open>amount\<close>, \<open>value\<close>, \<open>eth\<close>, read as a number, and the fallback 0.01
  when none is present.
\<close>

definition native_amount_spec :: "request \<Rightarrow> jsnum" where
  "native_amount_spec req =
     (case find truthy [amountETH req, amount req, value' req, eth req] of
        None \<Rightarrow> js_lit (1 / 100)
      | Some v \<Rightarrow> parseFloat v)"

text \<open>
  An endpoint is accepted when its probe is fulfilled within 5000 ms and, with a key
  configured, the wallet constructor does not throw.
\<close>

definition probe_accepted :: "world \<Rightarrow> string \<Rightarrow> bool" where
  "probe_accepted w rpc =
     (race (getBlockNumber w rpc) 5000 \<and>
      (case PRIVATE_KEY w of
         None \<Rightarrow> True
       | Some key \<Rightarrow> if key = [] then True else Wallet_address w key \<noteq> None))"

text \<open>The globals once endpoint \<open>rpc\<close> is bound: the wallet is replaced when a key is configured.\<close>

definition bound :: "world \<Rightarrow> state \<Rightarrow> string \<Rightarrow> state" where
  "bound w st rpc =
     \<lparr>provider = Some rpc,
      wallet =
        (case PRIVATE_KEY w of
           None \<Rightarrow> wallet st
         | Some key \<Rightarrow>
             if key = [] then wallet st
             else (case Wallet_address w key of None \<Rightarrow> wallet st | Some a \<Rightarrow> Some \<lparr>address = a\<rparr>))\<rparr>"

section \<open>Evaluating numbers and texts\<close>

lemmas floorlog_numeral =
  compute_floorlog [of "numeral b" "numeral x"]
  compute_floorlog [of "numeral b" "Suc 0"]
  compute_floorlog [of "numeral b" 0] for b x

lemmas fl_eval =
  fl_def round_double_def binexp_def round_half_even_def pow2_def floorlog_numeral Let_def

lemmas text_eval =
  fixed_digits_def decimal.simps frac_digits.simps parseEther_def is_digit_def digits_val_def
  digit_val_def Let_def

lemma lit_reserve: "js_lit (2 / 1000) = Fin (1152921504606847 / 576460752303423488)"
  by (simp add: js_lit_def fl_eval)

lemma lit_fallback: "js_lit (1 / 100) = Fin (5764607523034235 / 576460752303423488)"
  by (simp add: js_lit_def fl_eval)

lemma lit_100: "js_lit 100 = Fin 100"
  by (simp add: js_lit_def fl_eval)

lemma lit_3450: "js_lit 3450 = Fin 3450"
  by (simp add: js_lit_def fl_eval)

lemma lit_0: "js_lit 0 = Fin 0"
  by (simp add: js_lit_def fl_eval)

lemmas lit_eval = lit_reserve lit_fallback lit_100 lit_3450 lit_0

lemma balance_1: "balanceETH_of (10 ^ 18) = Fin 1"
  by (simp add: balanceETH_of_def fl_eval)

section \<open>Numbers: order and minimum\<close>

lemma js_lt_total: "a \<noteq> NaN \<Longrightarrow> b \<noteq> NaN \<Longrightarrow> js_lt a b \<or> a = b \<or> js_lt b a"
  by (cases a; cases b) auto

lemma not_js_le_zero: "a \<noteq> NaN \<Longrightarrow> \<not> js_le a (Fin 0) \<Longrightarrow> js_lt (Fin 0) a"
  using js_lt_total [of a "Fin 0"] by (auto simp: js_le_def)

lemma Math_min_le_right: "Math_min x y \<noteq> NaN \<Longrightarrow> js_le (Math_min x y) y"
  using js_lt_total [of x y] by (auto simp: Math_min_def js_le_def)

lemma Math_min_Fin: "Math_min (Fin x) (Fin y) = Fin (min x y)"
  by (simp add: Math_min_def min_def)

lemma parseFloat_falsy: "\<not> truthy v \<Longrightarrow> num_or (parseFloat v) d = d"
  by (cases v) (auto simp: num_or_def parseFloat_string_def)

section \<open>The handler, step by step\<close>

lemma resolveAmount_Inr:
  "resolveAmount req b = Inr a \<longleftrightarrow>
     \<not> js_lt b (js_lit (2 / 1000)) \<and> \<not> js_le (ethAmount req b) (js_lit 0) \<and> a = ethAmount req b"
  by (auto simp: resolveAmount_def)

lemma submit_status: "status (submit w url wl dest amt) = 500 \<or> status (submit w url wl dest amt) = 200"
  by (simp add: submit_def catch_def split: sum.splits)

lemma submit_NaN: "status (submit w url wl dest NaN) = 500"
  by (simp add: submit_def catch_def parseEther_def is_digit_def Let_def split: sum.splits)

lemma submit_success:
  "body (submit w url wl dest amt) = Success_body s \<Longrightarrow>
     amt \<noteq> NaN \<and> res_amount s = amt \<and> res_amountUSD s = js_mul amt (js_lit 3450) \<and> res_to s = dest"
  by (cases "amt = NaN")
    (auto simp: submit_def catch_def parseEther_def is_digit_def Let_def split: sum.splits)

lemma universalConvert_balance:
  assumes "provider (ensure w st) = Some url" "wallet (ensure w st) = Some wl"
    "getBalance w url (address wl) = Inr balance"
  shows "universalConvert w st req =
     (case resolveAmount req (balanceETH_of balance) of
        Inl r \<Rightarrow> (r, ensure w st)
      | Inr amt \<Rightarrow> (submit w url wl (destination req) amt, ensure w st))"
  using assms by (simp add: universalConvert_def)

text \<open>A success response comes from an accepted amount that \<open>parseEther\<close> could read.\<close>

lemma success_resolved:
  assumes "provider (ensure w st) = Some url" "wallet (ensure w st) = Some wl"
    "getBalance w url (address wl) = Inr balance"
    and "body (fst (universalConvert w st req)) = Success_body s"
  shows "\<exists>amt. resolveAmount req (balanceETH_of balance) = Inr amt \<and> amt \<noteq> NaN \<and>
     res_amount s = amt \<and> res_amountUSD s = js_mul amt (js_lit 3450) \<and> res_to s = destination req"
proof (cases "resolveAmount req (balanceETH_of balance)")
  case (Inl r)
  then have "r = gas_response (balanceETH_of balance) \<or> r = insufficient_response (balanceETH_of balance)"
    by (auto simp: resolveAmount_def split: if_splits)
  with assms(4) Inl show ?thesis
    unfolding universalConvert_balance [OF assms(1-3)]
    by (auto simp: gas_response_def insufficient_response_def)
next
  case (Inr amt)
  with assms(4) have "body (submit w url wl (destination req) amt) = Success_body s"
    unfolding universalConvert_balance [OF assms(1-3)] by simp
  from submit_success [OF this] Inr show ?thesis
    by simp
qed

section \<open>The reference world\<close>

lemma initProvider_calm:
  "initProvider (calm_world b) start = (True, ready, [(''https://ethereum-rpc.publicnode.com'', 5000)])"
  by (simp add: initProvider_def RPC_URLS_def calm_world_def start_def ready_def probe_def race_def)

lemma ensure_calm: "ensure (calm_world b) start = ready"
  unfolding ensure_def initProvider_calm by (simp add: start_def)

lemma calm_context:
  "provider (ensure (calm_world b) start) = Some ''https://ethereum-rpc.publicnode.com''"
  "wallet (ensure (calm_world b) start) = Some \<lparr>address = ''0xSigner''\<rparr>"
  "getBalance (calm_world b) ''https://ethereum-rpc.publicnode.com'' (address \<lparr>address = ''0xSigner''\<rparr>) = Inr b"
  unfolding ensure_calm by (simp_all add: ready_def calm_world_def)

lemma universalConvert_calm:
  "universalConvert (calm_world b) start req =
     (case resolveAmount req (balanceETH_of b) of
        Inl r \<Rightarrow> (r, ready)
      | Inr amt \<Rightarrow>
          (submit (calm_world b) ''https://ethereum-rpc.publicnode.com'' \<lparr>address = ''0xSigner''\<rparr>
             (destination req) amt, ready))"
  unfolding universalConvert_balance [OF calm_context] ensure_calm by (rule refl)

lemma submit_calm:
  assumes "parseEther (toFixed 8 amt) = Inr v"
  shows "submit (calm_world b) url wl dest amt =
     \<lparr>status = 200,
      body = Success_body
        \<lparr>res_success = True, res_txHash = ''0xhash'', res_hash = ''0xhash'',
         res_transactionHash = ''0xhash'', res_from = address wl, res_to = dest,
         res_amount = amt, res_amountUSD = js_mul amt (js_lit 3450),
         res_blockNumber = 19000000, res_gasUsed = ''21000''\<rparr>\<rparr>"
  using assms by (simp add: submit_def calm_world_def decimal.simps)

section \<open>A worked transfer\<close>

text \<open>Balance 0.01 ether, request \<open>{amountETH: 0.02}\<close>: 0.008 ether is sent.\<close>

lemma resolve_native_example:
  "resolveAmount (empty_body\<lparr>amountETH := Num (js_lit (2 / 100))\<rparr>) (balanceETH_of (10 ^ 16))
     = Inr (js_lit (8 / 1000))"
proof -
  let ?req = "empty_body\<lparr>amountETH := Num (js_lit (2 / 100))\<rparr>"
  have l2: "js_lit (2 / 100) = Fin (5764607523034235 / 288230376151711744)"
    by (simp add: js_lit_def fl_eval)
  have l8: "js_lit (8 / 1000) = Fin (1152921504606847 / 144115188075855872)"
    by (simp add: js_lit_def fl_eval)
  have bal: "balanceETH_of (10 ^ 16) = Fin (5764607523034235 / 576460752303423488)"
    by (simp add: balanceETH_of_def fl_eval)
  have rest: "js_sub (Fin (5764607523034235 / 576460752303423488))
      (Fin (1152921504606847 / 576460752303423488)) = Fin (1152921504606847 / 144115188075855872)"
    by (simp add: fl_eval)
  have amt: "ethAmount ?req (Fin (5764607523034235 / 576460752303423488))
      = Fin (1152921504606847 / 144115188075855872)"
    unfolding ethAmount_def lit_eval l2 rest
    by (simp add: empty_body_def js_or_def num_or_def Math_min_def)
  show ?thesis
    unfolding resolveAmount_def bal amt lit_eval l8 by (simp add: js_le_def)
qed

lemma transfer_native_example:
  "fst (universalConvert (calm_world (10 ^ 16)) start (empty_body\<lparr>amountETH := Num (js_lit (2 / 100))\<rparr>)) =
     \<lparr>status = 200,
      body = Success_body
        \<lparr>res_success = True, res_txHash = ''0xhash'', res_hash = ''0xhash'',
         res_transactionHash = ''0xhash'', res_from = ''0xSigner'', res_to = Str TREASURY,
         res_amount = js_lit (8 / 1000), res_amountUSD = js_mul (js_lit (8 / 1000)) (js_lit 3450),
         res_blockNumber = 19000000, res_gasUsed = ''21000''\<rparr>\<rparr>"
proof -
  let ?req = "empty_body\<lparr>amountETH := Num (js_lit (2 / 100))\<rparr>"
  have l8: "js_lit (8 / 1000) = Fin (1152921504606847 / 144115188075855872)"
    by (simp add: js_lit_def fl_eval)
  have fixed: "toFixed 8 (js_lit (8 / 1000)) = Text ''0.00800000''"
    unfolding l8 by (simp add: text_eval)
  have wei: "parseEther (toFixed 8 (js_lit (8 / 1000))) = Inr 8000000000000000"
    unfolding fixed by (simp add: text_eval)
  have dest: "destination ?req = Str TREASURY"
    by (simp add: destination_def empty_body_def js_or_def)
  show ?thesis
    unfolding universalConvert_calm resolve_native_example sum.case submit_calm [OF wei] dest
    by simp
qed

section \<open>Percentage mode\<close>

lemma percentage_formula:
  assumes "percentage req = Num (Fin p)" "p \<noteq> 0"
  shows "ethAmount req b =
     js_sub (js_div (js_mul b (Fin (min 100 p))) (js_lit 100)) (js_lit (2 / 1000))"
proof -
  have t: "truthy (percentage req)"
    using assms by simp
  have m: "Math_min (js_lit 100) (parseFloat (percentage req)) = Fin (min 100 p)"
    unfolding lit_100 using assms(1) by (simp add: Math_min_Fin)
  show ?thesis
    unfolding ethAmount_def m using t by simp
qed

text \<open>
  C1, as the code has it. For a percentage \<open>p\<close> that is a number above 0 and a balance that
  passes the minimum, the amount is \<open>b * p / 100 - 0.002\<close> in Number arithmetic, with
  \<open>p\<close> replaced by 100 when it is larger, and the handler answers with the
  insufficient-funds response exactly when that amount is at most 0.
\<close>

theorem percentage_amount:
  assumes "provider (ensure w st) = Some url"
    and "wallet (ensure w st) = Some wl"
    and "getBalance w url (address wl) = Inr balance"
    and "\<not> js_lt (balanceETH_of balance) (js_lit (2 / 1000))"
    and "percentage req = Num (Fin p)"
    and "0 < p"
  shows "ethAmount req (balanceETH_of balance) =
           js_sub (js_div (js_mul (balanceETH_of balance) (Fin (if p \<le> 100 then p else 100)))
             (js_lit 100)) (js_lit (2 / 1000))
         \<and> (fst (universalConvert w st req) = insufficient_response (balanceETH_of balance)) =
             js_le (ethAmount req (balanceETH_of balance)) (js_lit 0)"
proof -
  let ?b = "balanceETH_of balance"
  have "min 100 p = (if p \<le> 100 then p else 100)"
    by (simp add: min_def)
  with percentage_formula [OF assms(5), of ?b] assms(6)
  have amount: "ethAmount req ?b =
      js_sub (js_div (js_mul ?b (Fin (if p \<le> 100 then p else 100))) (js_lit 100)) (js_lit (2 / 1000))"
    by simp
  have response: "fst (universalConvert w st req) =
      (if js_le (ethAmount req ?b) (js_lit 0) then insufficient_response ?b
       else submit w url wl (destination req) (ethAmount req ?b))"
    unfolding universalConvert_balance [OF assms(1-3)] resolveAmount_def
    using assms(4) by simp
  have "submit w url wl (destination req) (ethAmount req ?b) \<noteq> insufficient_response ?b"
    using submit_status [of w url wl "destination req" "ethAmount req ?b"]
    by (auto simp: insufficient_response_def)
  with response have "(fst (universalConvert w st req) = insufficient_response ?b) =
      js_le (ethAmount req ?b) (js_lit 0)"
    by simp
  with amount show ?thesis
    by (rule conjI)
qed

text \<open>
  The theorem at work: a balance of 1 ether and a percentage of 50 give 0.498, and the
  transfer is made.
\<close>

theorem percentage_amount_witness:
  "ethAmount (empty_body\<lparr>percentage := Num (Fin 50)\<rparr>) (balanceETH_of (10 ^ 18)) =
     js_sub (js_div (js_mul (balanceETH_of (10 ^ 18)) (Fin 50)) (js_lit 100)) (js_lit (2 / 1000))
   \<and> fst (universalConvert (calm_world (10 ^ 18)) start (empty_body\<lparr>percentage := Num (Fin 50)\<rparr>))
       \<noteq> insufficient_response (balanceETH_of (10 ^ 18))"
proof -
  let ?req = "empty_body\<lparr>percentage := Num (Fin 50)\<rparr>"
  have b: "\<not> js_lt (balanceETH_of (10 ^ 18)) (js_lit (2 / 1000))"
    unfolding balance_1 lit_reserve by simp
  have p: "percentage ?req = Num (Fin 50)"
    by simp
  have amt: "js_sub (js_div (js_mul (Fin 1) (Fin 50)) (Fin 100)) (Fin (1152921504606847 / 576460752303423488))
      = Fin (2242792614430507 / 4503599627370496)"
    by (simp add: fl_eval)
  have pos: "\<not> js_le (Fin (2242792614430507 / 4503599627370496)) (Fin 0)"
    by (simp add: js_le_def)
  note inst = percentage_amount [OF calm_context b p]
  have "ethAmount ?req (balanceETH_of (10 ^ 18)) = Fin (2242792614430507 / 4503599627370496)"
    using inst amt unfolding balance_1 lit_eval by simp
  with inst pos show ?thesis
    unfolding lit_0 by simp
qed

text \<open>
  Stated for every percentage from 0 to 100, the property fails at 0: the field is falsy,
  percentage mode is not selected, and with a balance of 1 ether the handler sends the
  fallback amount 0.01 instead of failing on \<open>1 * 0 / 100 - 0.002\<close>.
\<close>

theorem percentage_zero_counterexample:
  "js_le (js_sub (js_div (js_mul (balanceETH_of (10 ^ 18)) (Fin 0)) (js_lit 100)) (js_lit (2 / 1000)))
     (js_lit 0)
   \<and> ethAmount (empty_body\<lparr>percentage := Num (Fin 0)\<rparr>) (balanceETH_of (10 ^ 18)) = js_lit (1 / 100)
   \<and> status (fst (universalConvert (calm_world (10 ^ 18)) start (empty_body\<lparr>percentage := Num (Fin 0)\<rparr>)))
       = 200"
proof -
  let ?req = "empty_body\<lparr>percentage := Num (Fin 0)\<rparr>"
  have v: "js_sub (js_div (js_mul (Fin 1) (Fin 0)) (Fin 100)) (Fin (1152921504606847 / 576460752303423488))
      = Fin (- (1152921504606847 / 576460752303423488))"
    by (simp add: fl_eval)
  have stated: "js_le (js_sub (js_div (js_mul (Fin 1) (Fin 0)) (Fin 100))
      (Fin (1152921504606847 / 576460752303423488))) (Fin 0)"
    unfolding v by (simp add: js_le_def)
  have rest: "js_sub (Fin 1) (Fin (1152921504606847 / 576460752303423488)) = Fin (4494592428115755 / 4503599627370496)"
    by (simp add: fl_eval)
  have amt: "ethAmount ?req (Fin 1) = Fin (5764607523034235 / 576460752303423488)"
    unfolding ethAmount_def lit_eval rest
    by (simp add: empty_body_def js_or_def num_or_def Math_min_def)
  have res: "resolveAmount ?req (Fin 1) = Inr (Fin (5764607523034235 / 576460752303423488))"
    unfolding resolveAmount_def amt lit_eval by (simp add: js_le_def)
  have fixed: "toFixed 8 (Fin (5764607523034235 / 576460752303423488)) = Text ''0.01000000''"
    by (simp add: text_eval)
  have wei: "parseEther (toFixed 8 (Fin (5764607523034235 / 576460752303423488))) = Inr 10000000000000000"
    unfolding fixed by (simp add: text_eval)
  have "status (fst (universalConvert (calm_world (10 ^ 18)) start ?req)) = 200"
    unfolding universalConvert_calm balance_1 res sum.case submit_calm [OF wei] by simp
  with stated amt show ?thesis
    unfolding balance_1 lit_eval by simp
qed

section \<open>The range of an accepted amount\<close>

lemma accepted_amount:
  assumes "resolveAmount req (balanceETH_of balance) = Inr a"
  shows "a = NaN \<or> js_lt (js_lit 0) a"
    and "\<not> truthy (percentage req) \<Longrightarrow> a \<noteq> NaN \<Longrightarrow>
         js_le a (js_sub (balanceETH_of balance) (js_lit (2 / 1000)))"
proof -
  let ?b = "balanceETH_of balance"
  from assms have a: "a = ethAmount req ?b" and pos: "\<not> js_le a (js_lit 0)"
    by (simp_all add: resolveAmount_Inr)
  from pos show "a = NaN \<or> js_lt (js_lit 0) a"
    unfolding lit_0 using not_js_le_zero [of a] by blast
  show "js_le a (js_sub ?b (js_lit (2 / 1000)))" if "\<not> truthy (percentage req)" "a \<noteq> NaN"
  proof -
    from that(1) have "\<exists>x. a = Math_min x (js_sub ?b (js_lit (2 / 1000)))"
      unfolding a ethAmount_def by (cases "truthy (amountUSD req)") auto
    then obtain x where "a = Math_min x (js_sub ?b (js_lit (2 / 1000)))"
      by blast
    with that(2) show ?thesis
      using Math_min_le_right by simp
  qed
qed

text \<open>
  C2, as the code has it. An amount that passes the two checks is NaN or above 0. NaN
  passes, since \<open>NaN <= 0\<close> is false, and is stopped only when \<open>parseEther\<close> throws: the
  answer has status 500. So the amount of every success response is above 0. In fiat and
  native mode the amount is at most balance minus 0.002; in percentage mode rounding can
  put it above.
\<close>

theorem accepted_amount_range:
  assumes "provider (ensure w st) = Some url"
    and "wallet (ensure w st) = Some wl"
    and "getBalance w url (address wl) = Inr balance"
  shows "(resolveAmount req (balanceETH_of balance) = Inr a \<longrightarrow>
            (a = NaN \<or> js_lt (js_lit 0) a)
            \<and> (\<not> truthy (percentage req) \<and> a \<noteq> NaN \<longrightarrow>
                 js_le a (js_sub (balanceETH_of balance) (js_lit (2 / 1000)))))
         \<and> (resolveAmount req (balanceETH_of balance) = Inr NaN \<longrightarrow>
              status (fst (universalConvert w st req)) = 500)
         \<and> (body (fst (universalConvert w st req)) = Success_body s \<longrightarrow>
              js_lt (js_lit 0) (res_amount s)
              \<and> (\<not> truthy (percentage req) \<longrightarrow>
                   js_le (res_amount s) (js_sub (balanceETH_of balance) (js_lit (2 / 1000)))))"
proof (intro conjI impI)
  let ?b = "balanceETH_of balance"
  {
    assume r: "resolveAmount req ?b = Inr a"
    from accepted_amount(1) [OF r] show "a = NaN \<or> js_lt (js_lit 0) a" .
    assume "\<not> truthy (percentage req) \<and> a \<noteq> NaN"
    with accepted_amount(2) [OF r] show "js_le a (js_sub ?b (js_lit (2 / 1000)))"
      by simp
  }
  {
    assume "resolveAmount req ?b = Inr NaN"
    then show "status (fst (universalConvert w st req)) = 500"
      unfolding universalConvert_balance [OF assms] by (simp add: submit_NaN)
  }
  assume "body (fst (universalConvert w st req)) = Success_body s"
  from success_resolved [OF assms this]
  obtain amt where r: "resolveAmount req ?b = Inr amt" and n: "amt \<noteq> NaN"
    and e: "res_amount s = amt"
    by blast
  from accepted_amount(1) [OF r] n e show "js_lt (js_lit 0) (res_amount s)"
    by simp
  assume "\<not> truthy (percentage req)"
  with accepted_amount(2) [OF r] n e show "js_le (res_amount s) (js_sub ?b (js_lit (2 / 1000)))"
    by simp
qed

text \<open>
  The theorem at work: the transfer of 0.008 ether from a balance of 0.01 has an amount
  above 0 and at most balance minus 0.002; a fiat field \<open>true\<close> passes the checks as NaN
  and is answered with status 500.
\<close>

theorem accepted_amount_range_witness:
  "js_lt (js_lit 0) (js_lit (8 / 1000))
   \<and> js_le (js_lit (8 / 1000)) (js_sub (balanceETH_of (10 ^ 16)) (js_lit (2 / 1000)))
   \<and> status (fst (universalConvert (calm_world (10 ^ 18)) start (empty_body\<lparr>amountUSD := Bool True\<rparr>))) = 500"
proof -
  let ?native = "empty_body\<lparr>amountETH := Num (js_lit (2 / 100))\<rparr>"
  let ?nan = "empty_body\<lparr>amountUSD := Bool True\<rparr>"
  let ?s = "\<lparr>res_success = True, res_txHash = ''0xhash'', res_hash = ''0xhash'',
           res_transactionHash = ''0xhash'', res_from = ''0xSigner'', res_to = Str TREASURY,
           res_amount = js_lit (8 / 1000), res_amountUSD = js_mul (js_lit (8 / 1000)) (js_lit 3450),
           res_blockNumber = 19000000, res_gasUsed = ''21000''\<rparr>"
  have ok: "body (fst (universalConvert (calm_world (10 ^ 16)) start ?native)) = Success_body ?s"
    unfolding transfer_native_example by simp
  have mode: "\<not> truthy (percentage ?native)"
    by (simp add: empty_body_def)
  have nan: "resolveAmount ?nan (balanceETH_of (10 ^ 18)) = Inr NaN"
    unfolding balance_1 resolveAmount_def ethAmount_def lit_eval
    by (simp add: empty_body_def Math_min_def js_le_def)
  from accepted_amount_range [OF calm_context [where b = "10 ^ 16"], where req = ?native and s = ?s] ok mode
  have "js_lt (js_lit 0) (js_lit (8 / 1000))
      \<and> js_le (js_lit (8 / 1000)) (js_sub (balanceETH_of (10 ^ 16)) (js_lit (2 / 1000)))"
    by simp
  moreover from accepted_amount_range [OF calm_context [where b = "10 ^ 18"], where req = ?nan] nan
  have "status (fst (universalConvert (calm_world (10 ^ 18)) start ?nan)) = 500"
    by blast
  ultimately show ?thesis
    by blast
qed

text \<open>
  Stated for every request, the property fails twice. A fiat field \<open>true\<close> reads as NaN, which passes both
  checks and reaches the construction of the transaction, where \<open>parseEther\<close> throws.
  And with a balance of 0.007 ether and percentage 100 the accepted amount
  \<open>0.007 * 100 / 100 - 0.002\<close> is one rounding step above \<open>0.007 - 0.002\<close>.
\<close>

theorem amount_range_counterexample:
  "resolveAmount (empty_body\<lparr>amountUSD := Bool True\<rparr>) (balanceETH_of (10 ^ 18)) = Inr NaN
   \<and> \<not> js_lt (js_lit 0) NaN
   \<and> fst (universalConvert (calm_world (10 ^ 18)) start (empty_body\<lparr>amountUSD := Bool True\<rparr>)) =
       \<lparr>status = 500,
        body = Error_code_body ''invalid FixedNumber string value'' (Some ''INVALID_ARGUMENT'')\<rparr>
   \<and> resolveAmount (empty_body\<lparr>percentage := Num (Fin 100)\<rparr>) (balanceETH_of (7 * 10 ^ 15))
       = Inr (Fin (1441151880758559 / 288230376151711744))
   \<and> js_sub (balanceETH_of (7 * 10 ^ 15)) (js_lit (2 / 1000)) = Fin (5764607523034235 / 1152921504606846976)
   \<and> \<not> js_le (Fin (1441151880758559 / 288230376151711744)) (Fin (5764607523034235 / 1152921504606846976))"
proof -
  let ?nan = "empty_body\<lparr>amountUSD := Bool True\<rparr>"
  let ?all = "empty_body\<lparr>percentage := Num (Fin 100)\<rparr>"
  have nan: "resolveAmount ?nan (Fin 1) = Inr NaN"
    unfolding resolveAmount_def ethAmount_def lit_eval
    by (simp add: empty_body_def Math_min_def js_le_def)
  have thrown: "parseEther (Text ''NaN'') = Inl (Exn ''invalid FixedNumber string value'' (Some ''INVALID_ARGUMENT''))"
    by (simp add: text_eval)
  have answer: "fst (universalConvert (calm_world (10 ^ 18)) start ?nan) =
      \<lparr>status = 500,
       body = Error_code_body ''invalid FixedNumber string value'' (Some ''INVALID_ARGUMENT'')\<rparr>"
    unfolding universalConvert_calm balance_1 nan sum.case
    by (simp add: submit_def calm_world_def thrown catch_def)
  have bal: "balanceETH_of (7 * 10 ^ 15) = Fin (8070450532247929 / 1152921504606846976)"
    by (simp add: balanceETH_of_def fl_eval)
  have times: "js_mul (Fin (8070450532247929 / 1152921504606846976)) (Fin 100)
      = Fin (6305039478318695 / 9007199254740992)"
    by (simp add: fl_eval)
  have divided: "js_div (Fin (6305039478318695 / 9007199254740992)) (Fin 100)
      = Fin (4035225266123965 / 576460752303423488)"
    by (simp add: fl_eval)
  have less: "js_sub (Fin (4035225266123965 / 576460752303423488)) (Fin (1152921504606847 / 576460752303423488))
      = Fin (1441151880758559 / 288230376151711744)"
    by (simp add: fl_eval)
  have avail: "js_sub (Fin (8070450532247929 / 1152921504606846976)) (Fin (1152921504606847 / 576460752303423488))
      = Fin (5764607523034235 / 1152921504606846976)"
    by (simp add: fl_eval)
  have cap: "Math_min (Fin 100) (parseFloat (percentage ?all)) = Fin 100"
    by (simp add: Math_min_def)
  have mode: "truthy (percentage ?all)"
    by simp
  have amt: "ethAmount ?all (Fin (8070450532247929 / 1152921504606846976))
      = Fin (1441151880758559 / 288230376151711744)"
    unfolding ethAmount_def lit_eval cap times divided less using mode by simp
  have over: "resolveAmount ?all (Fin (8070450532247929 / 1152921504606846976))
      = Inr (Fin (1441151880758559 / 288230376151711744))"
    unfolding resolveAmount_def amt lit_eval by (simp add: js_le_def)
  have above: "\<not> js_le (Fin (1441151880758559 / 288230376151711744)) (Fin (5764607523034235 / 1152921504606846976))"
    by (simp add: js_le_def)
  from nan answer over avail above show ?thesis
    unfolding balance_1 bal lit_eval by simp
qed

section \<open>The two balance checks\<close>

lemma submit_not_400: "status (submit w url wl dest amt) \<noteq> 400"
  using submit_status [of w url wl dest amt] by auto

subsection \<open>The rounding error of a number\<close>

text \<open>
  The binary exponent brackets its argument, and rounding to a Number moves a positive
  real by at most half the spacing at its exponent.
\<close>

lemma pow2_powr: "pow2 e = 2 powr real_of_int e"
proof (cases "0 \<le> e")
  case True
  then have "real_of_int e = real (nat e)"
    by simp
  then show ?thesis
    using True by (simp add: pow2_def powr_realpow del: of_nat_nat)
next
  case False
  then have "real_of_int e = - real (nat (- e))"
    by simp
  then show ?thesis
    using False by (simp add: pow2_def powr_minus_divide powr_realpow del: of_nat_nat)
qed

lemma pow2_pos: "0 < pow2 e"
  by (simp add: pow2_powr)

lemma pow2_add: "pow2 (a + b) = pow2 a * pow2 b"
  by (simp add: pow2_powr powr_add)

lemma pow2_mono: "a \<le> b \<Longrightarrow> pow2 a \<le> pow2 b"
  by (simp add: pow2_powr)

lemma binexp_bounds:
  assumes "0 < a"
  shows "pow2 (binexp a) \<le> a \<and> a < pow2 (binexp a + 1)"
proof (cases "1 \<le> a")
  case True
  define n where "n = nat \<lfloor>a\<rfloor>"
  from True have n: "0 < n"
    unfolding n_def by simp
  from True have le: "real n \<le> a"
    unfolding n_def by simp
  from True have less: "a < real n + 1"
    unfolding n_def by simp
  from floorlog_bounds [OF n, of 2]
  have lo: "2 ^ (floorlog 2 n - 1) \<le> n" and hi: "n < 2 ^ floorlog 2 n"
    by simp_all
  from hi have pos: "0 < floorlog 2 n"
    using n by (cases "floorlog 2 n") simp_all
  have e: "binexp a = int (floorlog 2 n) - 1"
    using True by (simp add: binexp_def n_def)
  from pos have e1: "pow2 (binexp a) = 2 ^ (floorlog 2 n - 1)"
    unfolding e pow2_def by (simp add: nat_diff_distrib')
  have e2: "pow2 (binexp a + 1) = 2 ^ floorlog 2 n"
    unfolding e pow2_def by simp
  have "(2::real) ^ (floorlog 2 n - 1) \<le> real n"
    using of_nat_mono [OF lo, where ?'a = real] by simp
  with le have "pow2 (binexp a) \<le> a"
    unfolding e1 by linarith
  moreover from hi have "n + 1 \<le> 2 ^ floorlog 2 n"
    by simp
  then have "real n + 1 \<le> (2::real) ^ floorlog 2 n"
    using of_nat_mono [of "n + 1" "2 ^ floorlog 2 n", where ?'a = real] by simp
  with less have "a < pow2 (binexp a + 1)"
    unfolding e2 by linarith
  ultimately show ?thesis ..
next
  case False
  define z where "z = 1 / a"
  define m where "m = nat \<lfloor>z\<rfloor>"
  define k where "k = floorlog 2 m - 1"
  from False assms have inv: "1 < z"
    unfolding z_def by simp
  then have "1 \<le> \<lfloor>z\<rfloor>"
    by linarith
  then have mz: "real m = of_int \<lfloor>z\<rfloor>" and m: "0 < m"
    unfolding m_def by simp_all
  from mz have le: "real m \<le> z" and less: "z < real m + 1"
    by linarith+
  from floorlog_bounds [OF m, of 2]
  have lo: "2 ^ k \<le> m" and hi: "m < 2 ^ floorlog 2 m"
    unfolding k_def by simp_all
  from hi have pos: "0 < floorlog 2 m"
    using m by (cases "floorlog 2 m") simp_all
  then have fk: "floorlog 2 m = k + 1"
    unfolding k_def by simp
  have "(2::real) ^ k \<le> real m"
    using of_nat_mono [OF lo, where ?'a = real] by simp
  with le have "2 ^ k \<le> 1 / a"
    unfolding z_def by linarith
  with assms have up: "a \<le> 1 / 2 ^ k"
    by (simp add: field_simps)
  from hi have "m + 1 \<le> 2 ^ (k + 1)"
    unfolding fk by simp
  then have "real m + 1 \<le> (2::real) ^ (k + 1)"
    using of_nat_mono [of "m + 1" "2 ^ (k + 1)", where ?'a = real] by simp
  with less have "1 / a < 2 ^ (k + 1)"
    unfolding z_def by linarith
  with assms have down: "1 / 2 ^ (k + 1) < a"
    by (simp add: field_simps)
  have kk: "int (floorlog 2 (nat \<lfloor>1 / a\<rfloor>)) - 1 = int k"
    using fk unfolding m_def z_def by simp
  have pk: "pow2 (int k) = 2 ^ k" "pow2 (- int k) = 1 / 2 ^ k" "pow2 (- int k - 1) = 1 / 2 ^ (k + 1)"
    "pow2 (- int k + 1) = 2 * (1 / 2 ^ k)" "pow2 (- int k - 1 + 1) = 1 / 2 ^ k"
    by (simp_all add: pow2_powr powr_realpow powr_minus_divide powr_diff powr_add)
  show ?thesis
  proof (cases "a * pow2 (int k) = 1")
    case True
    then have e: "binexp a = - int k"
      using False by (simp add: binexp_def kk Let_def)
    from True have "a = 1 / 2 ^ k"
      unfolding pk by (simp add: field_simps)
    with assms show ?thesis
      unfolding e pk by linarith
  next
    case neq: False
    then have e: "binexp a = - int k - 1"
      using False by (simp add: binexp_def kk Let_def)
    from neq have "a \<noteq> 1 / 2 ^ k"
      unfolding pk by (simp add: field_simps)
    with up down show ?thesis
      unfolding e pk by simp
  qed
qed

lemma round_half_even_near: "\<bar>real_of_int (round_half_even z) - z\<bar> \<le> 1 / 2"
  unfolding round_half_even_def Let_def by (simp add: abs_le_iff)

lemma round_double_near:
  assumes "0 < y"
  shows "\<bar>round_double y - y\<bar> \<le> pow2 (max (binexp y) (- 1022) - 52) / 2"
proof -
  define q where "q = pow2 (max (binexp y) (- 1022) - 52)"
  have q: "0 < q"
    unfolding q_def by (rule pow2_pos)
  from assms have r: "round_double y = of_int (round_half_even (y / q)) * q"
    by (simp add: round_double_def Let_def q_def)
  from q have "round_double y - y = (real_of_int (round_half_even (y / q)) - y / q) * q"
    unfolding r by (simp add: left_diff_distrib)
  with q have "\<bar>round_double y - y\<bar> = \<bar>real_of_int (round_half_even (y / q)) - y / q\<bar> * q"
    by (simp add: abs_mult)
  also have "\<dots> \<le> 1 / 2 * q"
    using round_half_even_near [of "y / q"] q by (intro mult_right_mono) simp_all
  finally show ?thesis
    unfolding q_def by simp
qed

subsection \<open>The text of a small number\<close>

text \<open>
  \<open>frac_digits d m\<close> is a string of \<open>d\<close> digits that reads as \<open>m mod 10 ^ d\<close>. A number from
  0 to below one half is printed by \<open>toFixed(6)\<close> as \<open>0.\<close> and six digits: the number of
  millionths nearest to it, the upper one at a tie.
\<close>

lemma frac_digits_length: "length (frac_digits d m) = d"
proof (induction d arbitrary: m)
  case 0
  show ?case by (simp add: frac_digits.simps)
next
  case (Suc d)
  show ?case
    using Suc [of "m div 10"] by (subst frac_digits.simps) simp
qed

lemma digit_nth: "k < 10 \<Longrightarrow> is_digit (''0123456789'' ! k) \<and> digit_val (''0123456789'' ! k) = k"
proof -
  assume "k < 10"
  then have "k \<in> {0, 1, 2, 3, 4, 5, 6, 7, 8, 9}"
    by auto
  then show ?thesis
    by (auto simp: is_digit_def digit_val_def)
qed

lemma frac_digits_digits: "c \<in> set (frac_digits d m) \<Longrightarrow> is_digit c"
proof (induction d arbitrary: m)
  case 0
  then show ?case by (simp add: frac_digits.simps)
next
  case (Suc d)
  from Suc.prems have "c \<in> set (frac_digits d (m div 10)) \<or> c = ''0123456789'' ! (m mod 10)"
    by (subst (asm) frac_digits.simps) auto
  then show ?case
    using Suc.IH [of "m div 10"] digit_nth [of "m mod 10"] by auto
qed

lemma digits_val_snoc: "digits_val (ds @ [c]) = 10 * digits_val ds + digit_val c"
  by (simp add: digits_val_def)

lemma digits_val_frac_digits: "digits_val (frac_digits d m) = m mod 10 ^ d"
proof (induction d arbitrary: m)
  case 0
  show ?case by (simp add: frac_digits.simps digits_val_def)
next
  case (Suc d)
  have "digits_val (frac_digits (Suc d) m) = 10 * (m div 10 mod 10 ^ d) + m mod 10"
    using Suc [of "m div 10"] digit_nth [of "m mod 10"]
    by (subst frac_digits.simps) (simp add: digits_val_snoc)
  also have "\<dots> = m mod 10 ^ Suc d"
    by (simp add: mod_mult2_eq)
  finally show ?case .
qed

lemma fixed_digits_small:
  assumes "n < 10 ^ d" and "0 < d"
  shows "fixed_digits d n = ''0.'' @ frac_digits d n"
  using assms by (simp add: fixed_digits_def decimal.simps)

lemma round_half_even_nonneg: "0 \<le> x \<Longrightarrow> 0 \<le> round_half_even x"
  by (simp add: round_half_even_def Let_def)

lemma round_double_nonneg: "0 \<le> x \<Longrightarrow> 0 \<le> round_double x"
  by (simp add: round_double_def Let_def pow2_def round_half_even_nonneg)

lemma balanceETH_of_low:
  assumes "js_lt (balanceETH_of balance) (js_lit (2 / 1000))"
  shows "\<exists>x. balanceETH_of balance = Fin x \<and> 0 \<le> x \<and> x < 1 / 300"
proof -
  have nonneg: "0 \<le> round_double (real balance / 10 ^ 18)"
    by (rule round_double_nonneg) simp
  show ?thesis
  proof (cases "balanceETH_of balance")
    case (Fin x)
    then have "x = round_double (real balance / 10 ^ 18)"
      by (simp add: balanceETH_of_def fl_def Let_def split: if_splits)
    with nonneg have "0 \<le> x"
      by simp
    moreover from assms Fin have "x < 1152921504606847 / 576460752303423488"
      unfolding lit_reserve by simp
    then have "x < 1 / 300"
      by simp
    ultimately show ?thesis
      using Fin by simp
  next
    case PosInf
    with assms show ?thesis
      unfolding lit_reserve by simp
  next
    case NegInf
    with nonneg show ?thesis
      by (simp add: balanceETH_of_def fl_def Let_def split: if_splits)
  next
    case NaN
    with assms show ?thesis
      by simp
  qed
qed

lemma toFixed_six_low:
  assumes "0 \<le> x" and "x < 1 / 2"
  shows "\<exists>ds. toFixed 6 (Fin x) = Text (''0.'' @ ds) \<and> length ds = 6 \<and> (\<forall>c\<in>set ds. is_digit c)
           \<and> digits_val ds = nat \<lfloor>x * 10 ^ 6 + 1 / 2\<rfloor>
           \<and> \<bar>real (digits_val ds) / 10 ^ 6 - x\<bar> \<le> 1 / (2 * 10 ^ 6)"
proof -
  let ?n = "nat \<lfloor>x * 10 ^ 6 + 1 / 2\<rfloor>"
  from assms have "x * 10 ^ 6 + 1 / 2 < 10 ^ 6"
    by simp
  then have "\<lfloor>x * 10 ^ 6 + 1 / 2\<rfloor> < 1000000"
    by (subst floor_less_iff) simp
  then have "?n < 1000000"
    by linarith
  then have small: "?n < 10 ^ 6"
    by simp
  from assms have big: "\<not> 10 ^ 21 \<le> \<bar>x\<bar>" and pos: "\<not> x < 0"
    by simp_all
  have shape: "toFixed 6 (Fin x) = Text (''0.'' @ frac_digits 6 ?n)"
    using fixed_digits_small [OF small] big pos by simp
  have val: "digits_val (frac_digits 6 ?n) = ?n"
    using small by (simp add: digits_val_frac_digits)
  define r where "r = real ?n"
  from assms have "0 \<le> \<lfloor>x * 10 ^ 6 + 1 / 2\<rfloor>"
    by simp
  then have "r = of_int \<lfloor>x * 10 ^ 6 + 1 / 2\<rfloor>"
    unfolding r_def by simp
  then have "r \<le> x * 10 ^ 6 + 1 / 2" and "x * 10 ^ 6 + 1 / 2 < r + 1"
    by linarith+
  then have "r / 1000000 - x \<le> 1 / 2000000" and "- (1 / 2000000) \<le> r / 1000000 - x"
    by simp_all
  then have "\<bar>r / 1000000 - x\<bar> \<le> 1 / 2000000"
    by linarith
  then have near: "\<bar>real ?n / 10 ^ 6 - x\<bar> \<le> 1 / (2 * 10 ^ 6)"
    unfolding r_def by simp
  from shape val near frac_digits_length [of 6 ?n] frac_digits_digits [of _ 6 ?n] show ?thesis
    by auto
qed

lemma balanceETH_of_near:
  assumes "balanceETH_of balance = Fin x" and "x < 1 / 300"
  shows "\<bar>x - real balance / 10 ^ 18\<bar> \<le> 1 / 2 ^ 62"
proof -
  define y where "y = real balance / 10 ^ 18"
  from assms(1) have x: "x = round_double y"
    by (simp add: balanceETH_of_def fl_def Let_def y_def split: if_splits)
  show ?thesis
  proof (cases "y = 0")
    case True
    then show ?thesis
      unfolding x y_def [symmetric] by (simp add: round_double_def)
  next
    case False
    then have pos: "0 < y"
      unfolding y_def by simp
    define P where "P = pow2 (binexp y)"
    from binexp_bounds [OF pos] have Py: "P \<le> y"
      unfolding P_def by simp
    note near = round_double_near [OF pos]
    have small: "binexp y \<le> - 9"
    proof (rule ccontr)
      assume "\<not> binexp y \<le> - 9"
      then have e: "- 8 \<le> binexp y"
        by simp
      then have m: "max (binexp y) (- 1022) = binexp y"
        by simp
      from pow2_mono [OF e] have P8: "1 / 256 \<le> P"
        unfolding P_def by (simp add: pow2_def)
      have "pow2 (binexp y - 52) = P * (1 / 4503599627370496)"
        using pow2_add [of "binexp y" "- 52"] unfolding P_def by (simp add: pow2_def)
      with near have "\<bar>x - y\<bar> \<le> P * (1 / 4503599627370496) / 2"
        unfolding m x by simp
      with Py P8 assms(2) show False
        by linarith
    qed
    then have "max (binexp y) (- 1022) - 52 \<le> - 61"
      by simp
    from pow2_mono [OF this] have "pow2 (max (binexp y) (- 1022) - 52) \<le> 1 / 2305843009213693952"
      by (simp add: pow2_def)
    with near have "\<bar>x - y\<bar> \<le> 1 / 4611686018427387904"
      unfolding x by linarith
    then show ?thesis
      unfolding y_def by simp
  qed
qed


subsection \<open>The first balance check\<close>

text \<open>
  C3. Once the balance is read, the handler answers with status 400, the error
  \<open>Need 0.002 ETH for gas\<close> and the balance printed with six decimals exactly when the
  balance in ether is below 0.002, whatever the request holds. For every such balance the
  printed text is \<open>0.\<close> followed by six digits; read as a number of millionths, it is the
  balance rounded to the nearest millionth (the upper one at a tie), so it differs from
  the balance Number by at most half a millionth, and from the balance in wei by at most
  that and the rounding of the balance to a Number, which is less than one wei. A
  balance of 0.001 ether is printed as 0.001000.
\<close>

theorem low_balance_rejected:
  assumes "provider (ensure w st) = Some url"
    and "wallet (ensure w st) = Some wl"
    and "getBalance w url (address wl) = Inr balance"
  shows "(fst (universalConvert w st req) = gas_response (balanceETH_of balance)) =
           js_lt (balanceETH_of balance) (js_lit (2 / 1000))
         \<and> gas_response (balanceETH_of balance) =
             \<lparr>status = 400,
              body = Error_balance_body ''Need 0.002 ETH for gas'' (toFixed 6 (balanceETH_of balance))\<rparr>
         \<and> (js_lt (balanceETH_of balance) (js_lit (2 / 1000)) \<longrightarrow>
              (\<exists>x ds. balanceETH_of balance = Fin x
                 \<and> fst (universalConvert w st req) =
                     \<lparr>status = 400,
                      body = Error_balance_body ''Need 0.002 ETH for gas'' (Text (''0.'' @ ds))\<rparr>
                 \<and> length ds = 6 \<and> (\<forall>c\<in>set ds. is_digit c)
                 \<and> digits_val ds = nat \<lfloor>x * 10 ^ 6 + 1 / 2\<rfloor>
                 \<and> \<bar>real (digits_val ds) / 10 ^ 6 - x\<bar> \<le> 1 / (2 * 10 ^ 6)
                 \<and> \<bar>real (digits_val ds) / 10 ^ 6 - real balance / 10 ^ 18\<bar>
                     \<le> 1 / (2 * 10 ^ 6) + 1 / 10 ^ 18))
         \<and> toFixed 6 (balanceETH_of (10 ^ 15)) = Text ''0.001000''"
proof -
  let ?b = "balanceETH_of balance"
  have low: "fst (universalConvert w st req) = gas_response ?b" if "js_lt ?b (js_lit (2 / 1000))"
    unfolding universalConvert_balance [OF assms] resolveAmount_def using that by simp
  have high: "fst (universalConvert w st req) \<noteq> gas_response ?b" if "\<not> js_lt ?b (js_lit (2 / 1000))"
  proof (cases "js_le (ethAmount req ?b) (js_lit 0)")
    case True
    then have "fst (universalConvert w st req) = insufficient_response ?b"
      unfolding universalConvert_balance [OF assms] resolveAmount_def using that by simp
    then show ?thesis
      by (simp add: insufficient_response_def gas_response_def)
  next
    case False
    then have "fst (universalConvert w st req) = submit w url wl (destination req) (ethAmount req ?b)"
      unfolding universalConvert_balance [OF assms] resolveAmount_def using that by simp
    then show ?thesis
      using submit_not_400 [of w url wl "destination req" "ethAmount req ?b"]
      by (auto simp: gas_response_def)
  qed
  have printed: "\<exists>x ds. ?b = Fin x
      \<and> fst (universalConvert w st req) =
          \<lparr>status = 400, body = Error_balance_body ''Need 0.002 ETH for gas'' (Text (''0.'' @ ds))\<rparr>
      \<and> length ds = 6 \<and> (\<forall>c\<in>set ds. is_digit c)
      \<and> digits_val ds = nat \<lfloor>x * 10 ^ 6 + 1 / 2\<rfloor>
      \<and> \<bar>real (digits_val ds) / 10 ^ 6 - x\<bar> \<le> 1 / (2 * 10 ^ 6)
      \<and> \<bar>real (digits_val ds) / 10 ^ 6 - real balance / 10 ^ 18\<bar> \<le> 1 / (2 * 10 ^ 6) + 1 / 10 ^ 18"
    if below: "js_lt ?b (js_lit (2 / 1000))"
  proof -
    from balanceETH_of_low [OF below] obtain x
      where x: "?b = Fin x" and x0: "0 \<le> x" and x1: "x < 1 / 300"
      by blast
    from x1 have "x < 1 / 2"
      by simp
    from toFixed_six_low [OF x0 this] obtain ds
      where ds: "toFixed 6 (Fin x) = Text (''0.'' @ ds)" "length ds = 6" "\<forall>c\<in>set ds. is_digit c"
        "digits_val ds = nat \<lfloor>x * 10 ^ 6 + 1 / 2\<rfloor>"
        and near: "\<bar>real (digits_val ds) / 10 ^ 6 - x\<bar> \<le> 1 / (2 * 10 ^ 6)"
      by blast
    from balanceETH_of_near [OF x x1] have "\<bar>x - real balance / 10 ^ 18\<bar> \<le> 1 / 10 ^ 18"
      by simp
    with near have wei: "\<bar>real (digits_val ds) / 10 ^ 6 - real balance / 10 ^ 18\<bar>
        \<le> 1 / (2 * 10 ^ 6) + 1 / 10 ^ 18"
      by linarith
    from low [OF below] have "fst (universalConvert w st req) =
        \<lparr>status = 400, body = Error_balance_body ''Need 0.002 ETH for gas'' (Text (''0.'' @ ds))\<rparr>"
      unfolding gas_response_def x ds(1) .
    with x ds near wei show ?thesis
      by blast
  qed
  have bal: "balanceETH_of (10 ^ 15) = Fin (1152921504606847 / 1152921504606846976)"
    by (simp add: balanceETH_of_def fl_eval)
  have six: "toFixed 6 (balanceETH_of (10 ^ 15)) = Text ''0.001000''"
    unfolding bal by (simp add: text_eval)
  have shape: "gas_response ?b =
      \<lparr>status = 400, body = Error_balance_body ''Need 0.002 ETH for gas'' (toFixed 6 ?b)\<rparr>"
    by (simp add: gas_response_def)
  from low high have iff: "(fst (universalConvert w st req) = gas_response ?b) = js_lt ?b (js_lit (2 / 1000))"
    by blast
  from iff shape printed six show ?thesis
    by blast
qed

text \<open>
  The theorem at work: 0.001 ether is below the minimum, a request for half the balance
  is answered with status 400 and the balance text 0.001000, and these six digits read as
  1000 millionths.
\<close>

theorem low_balance_rejected_witness:
  "js_lt (balanceETH_of (10 ^ 15)) (js_lit (2 / 1000))
   \<and> fst (universalConvert (calm_world (10 ^ 15)) start (empty_body\<lparr>percentage := Num (Fin 50)\<rparr>)) =
     \<lparr>status = 400, body = Error_balance_body ''Need 0.002 ETH for gas'' (Text ''0.001000'')\<rparr>
   \<and> digits_val ''001000'' = 1000"
proof -
  let ?req = "empty_body\<lparr>percentage := Num (Fin 50)\<rparr>"
  have bal: "balanceETH_of (10 ^ 15) = Fin (1152921504606847 / 1152921504606846976)"
    by (simp add: balanceETH_of_def fl_eval)
  have low: "js_lt (balanceETH_of (10 ^ 15)) (js_lit (2 / 1000))"
    unfolding bal lit_reserve by simp
  note inst = low_balance_rejected [OF calm_context, of "10 ^ 15" ?req]
  from inst low have answer: "fst (universalConvert (calm_world (10 ^ 15)) start ?req) =
      \<lparr>status = 400, body = Error_balance_body ''Need 0.002 ETH for gas'' (Text ''0.001000'')\<rparr>"
    by simp
  from inst low obtain x ds where x: "balanceETH_of (10 ^ 15) = Fin x"
    and ds: "fst (universalConvert (calm_world (10 ^ 15)) start ?req) =
      \<lparr>status = 400, body = Error_balance_body ''Need 0.002 ETH for gas'' (Text (''0.'' @ ds))\<rparr>"
    and v: "digits_val ds = nat \<lfloor>x * 10 ^ 6 + 1 / 2\<rfloor>"
    by blast
  from ds answer have digits: "ds = ''001000''"
    by simp
  from x have balance: "x = 1152921504606847 / 1152921504606846976"
    unfolding bal by simp
  from v have "digits_val ''001000'' = 1000"
    unfolding digits balance by simp
  with low answer show ?thesis
    by simp
qed

section \<open>Mode priority\<close>

lemma universalConvert_cong:
  assumes "\<And>b. ethAmount req' b = ethAmount req b" and "destination req' = destination req"
  shows "universalConvert w st req' = universalConvert w st req"
proof -
  have e: "resolveAmount req' = resolveAmount req"
    by (rule ext) (simp add: resolveAmount_def assms(1))
  show ?thesis
    unfolding universalConvert_def e assms(2) by (rule refl)
qed

text \<open>
  C4, as the code has it. When the percentage field is truthy, percentage mode is used
  and neither the fiat field nor a native amount field changes the amount or the
  response; when the percentage is falsy and the fiat field is truthy, fiat mode is used
  and no native amount field changes them.
\<close>

theorem mode_priority:
  "(truthy (percentage req) \<longrightarrow>
      ethAmount req b =
        js_sub (js_div (js_mul b (Math_min (js_lit 100) (parseFloat (percentage req)))) (js_lit 100))
          (js_lit (2 / 1000))
      \<and> universalConvert w st (req\<lparr>amountUSD := u, amountETH := x1, amount := x2, value' := x3, eth := x4\<rparr>)
          = universalConvert w st req)
   \<and> (\<not> truthy (percentage req) \<and> truthy (amountUSD req) \<longrightarrow>
      ethAmount req b =
        Math_min (js_div (parseFloat (amountUSD req)) (js_lit 3450)) (js_sub b (js_lit (2 / 1000)))
      \<and> universalConvert w st (req\<lparr>amountETH := x1, amount := x2, value' := x3, eth := x4\<rparr>)
          = universalConvert w st req)"
proof (intro conjI impI)
  assume p: "truthy (percentage req)"
  then show "ethAmount req b =
      js_sub (js_div (js_mul b (Math_min (js_lit 100) (parseFloat (percentage req)))) (js_lit 100))
        (js_lit (2 / 1000))"
    by (simp add: ethAmount_def)
  show "universalConvert w st (req\<lparr>amountUSD := u, amountETH := x1, amount := x2, value' := x3, eth := x4\<rparr>)
      = universalConvert w st req"
  proof (rule universalConvert_cong)
    show "ethAmount (req\<lparr>amountUSD := u, amountETH := x1, amount := x2, value' := x3, eth := x4\<rparr>) c
        = ethAmount req c" for c
      using p by (simp add: ethAmount_def)
    show "destination (req\<lparr>amountUSD := u, amountETH := x1, amount := x2, value' := x3, eth := x4\<rparr>)
        = destination req"
      by (simp add: destination_def)
  qed
next
  assume f: "\<not> truthy (percentage req) \<and> truthy (amountUSD req)"
  then show "ethAmount req b =
      Math_min (js_div (parseFloat (amountUSD req)) (js_lit 3450)) (js_sub b (js_lit (2 / 1000)))"
    by (simp add: ethAmount_def)
  show "universalConvert w st (req\<lparr>amountETH := x1, amount := x2, value' := x3, eth := x4\<rparr>)
      = universalConvert w st req"
  proof (rule universalConvert_cong)
    show "ethAmount (req\<lparr>amountETH := x1, amount := x2, value' := x3, eth := x4\<rparr>) c = ethAmount req c" for c
      using f by (simp add: ethAmount_def)
    show "destination (req\<lparr>amountETH := x1, amount := x2, value' := x3, eth := x4\<rparr>) = destination req"
      by (simp add: destination_def)
  qed
qed

text \<open>
  The theorem at work: with percentage 50, the fiat field 100 does not change the
  response; with no percentage and fiat 100, the native amount 5 does not change it.
\<close>

theorem mode_priority_witness:
  "universalConvert (calm_world (10 ^ 18)) start
       (empty_body\<lparr>percentage := Num (Fin 50), amountUSD := Num (Fin 100)\<rparr>)
     = universalConvert (calm_world (10 ^ 18)) start (empty_body\<lparr>percentage := Num (Fin 50)\<rparr>)
   \<and> universalConvert (calm_world (10 ^ 18)) start
       (empty_body\<lparr>amountUSD := Num (Fin 100), amountETH := Num (Fin 5)\<rparr>)
     = universalConvert (calm_world (10 ^ 18)) start (empty_body\<lparr>amountUSD := Num (Fin 100)\<rparr>)"
proof -
  let ?p = "empty_body\<lparr>percentage := Num (Fin 50)\<rparr>"
  let ?f = "empty_body\<lparr>amountUSD := Num (Fin 100)\<rparr>"
  have tp: "truthy (percentage ?p)"
    by simp
  have tf: "\<not> truthy (percentage ?f) \<and> truthy (amountUSD ?f)"
    by (simp add: empty_body_def)
  have "universalConvert (calm_world (10 ^ 18)) start
      (?p\<lparr>amountUSD := Num (Fin 100), amountETH := amountETH ?p, amount := amount ?p,
          value' := value' ?p, eth := eth ?p\<rparr>)
      = universalConvert (calm_world (10 ^ 18)) start ?p"
    using mode_priority [of ?p] tp by blast
  moreover have "universalConvert (calm_world (10 ^ 18)) start
      (?f\<lparr>amountETH := Num (Fin 5), amount := amount ?f, value' := value' ?f, eth := eth ?f\<rparr>)
      = universalConvert (calm_world (10 ^ 18)) start ?f"
    using mode_priority [of ?f] tf by blast
  ultimately show ?thesis
    by (simp add: empty_body_def)
qed

text \<open>
  Stated for every request that carries both fields, the property fails for percentage 0
  with a fiat amount:
  the percentage is falsy, fiat mode is used (100 / 3450 of an ether at a balance of
  1 ether), and the amount changes with the fiat field.
\<close>

theorem percentage_zero_fiat_counterexample:
  "ethAmount (empty_body\<lparr>percentage := Num (Fin 0), amountUSD := Num (Fin 100)\<rparr>) (Fin 1)
     = js_div (Fin 100) (js_lit 3450)
   \<and> ethAmount (empty_body\<lparr>percentage := Num (Fin 0), amountUSD := Num (Fin 100)\<rparr>) (Fin 1)
     \<noteq> js_sub (js_div (js_mul (Fin 1) (Math_min (js_lit 100) (Fin 0))) (js_lit 100)) (js_lit (2 / 1000))
   \<and> ethAmount (empty_body\<lparr>percentage := Num (Fin 0), amountUSD := Num (Fin 100)\<rparr>) (Fin 1)
     \<noteq> ethAmount (empty_body\<lparr>percentage := Num (Fin 0), amountUSD := Num (Fin 200)\<rparr>) (Fin 1)"
proof -
  have rest: "js_sub (Fin 1) (Fin (1152921504606847 / 576460752303423488))
      = Fin (4494592428115755 / 4503599627370496)"
    by (simp add: fl_eval)
  have d100: "js_div (Fin 100) (Fin 3450) = Fin (8354503656571355 / 288230376151711744)"
    by (simp add: fl_eval)
  have d200: "js_div (Fin 200) (Fin 3450) = Fin (8354503656571355 / 144115188075855872)"
    by (simp add: fl_eval)
  have pct: "js_sub (js_div (js_mul (Fin 1) (Math_min (Fin 100) (Fin 0))) (Fin 100))
      (Fin (1152921504606847 / 576460752303423488)) = Fin (- (1152921504606847 / 576460752303423488))"
    by (simp add: Math_min_def fl_eval)
  have a100: "ethAmount (empty_body\<lparr>percentage := Num (Fin 0), amountUSD := Num (Fin 100)\<rparr>) (Fin 1)
      = Fin (8354503656571355 / 288230376151711744)"
    unfolding ethAmount_def lit_eval rest
    by (simp add: d100 Math_min_def del: js_div.simps)
  have a200: "ethAmount (empty_body\<lparr>percentage := Num (Fin 0), amountUSD := Num (Fin 200)\<rparr>) (Fin 1)
      = Fin (8354503656571355 / 144115188075855872)"
    unfolding ethAmount_def lit_eval rest
    by (simp add: d200 Math_min_def del: js_div.simps)
  show ?thesis
    unfolding a100 a200 lit_eval d100 pct by simp
qed

section \<open>Native amount mode\<close>

lemma find_holds: "find P xs = Some x \<Longrightarrow> P x"
  by (induction xs) (auto split: if_splits)

lemma native_chain:
  "num_or (parseFloat (js_or (js_or (js_or (amountETH req) (amount req)) (value' req)) (eth req))) d =
     (case find truthy [amountETH req, amount req, value' req, eth req] of
        None \<Rightarrow> d
      | Some v \<Rightarrow> num_or (parseFloat v) d)"
  by (simp add: js_or_def parseFloat_falsy)

text \<open>
  C5, as the code has it. With percentage and fiat field falsy, the amount is the first
  truthy value among \<open>amountETH\<close>, \<open>amount\<close>, \<open>value\<close>, \<open>eth\<close> read by \<open>parseFloat\<close>, replaced
  by the fallback 0.01 when no alias is truthy and also when the value read is 0 or NaN,
  and then the minimum of that and balance minus 0.002. A first truthy alias that is a
  number is the amount itself. For balance 0.01 and \<open>{amountETH: 0.02}\<close> the amount, and
  the \<open>amount\<close> of the response, is 0.008.
\<close>

theorem native_amount:
  assumes "\<not> truthy (percentage req)" and "\<not> truthy (amountUSD req)"
  shows "ethAmount req b =
           Math_min (num_or (native_amount_spec req) (js_lit (1 / 100))) (js_sub b (js_lit (2 / 1000)))
         \<and> (find truthy [amountETH req, amount req, value' req, eth req] = None \<longrightarrow>
               ethAmount req b = Math_min (js_lit (1 / 100)) (js_sub b (js_lit (2 / 1000))))
         \<and> (find truthy [amountETH req, amount req, value' req, eth req] = Some (Num n) \<longrightarrow>
               ethAmount req b = Math_min n (js_sub b (js_lit (2 / 1000))))"
proof -
  let ?vs = "[amountETH req, amount req, value' req, eth req]"
  let ?r = "js_sub b (js_lit (2 / 1000))"
  have code: "ethAmount req b =
      Math_min (case find truthy ?vs of None \<Rightarrow> js_lit (1 / 100)
                | Some v \<Rightarrow> num_or (parseFloat v) (js_lit (1 / 100))) ?r"
    unfolding ethAmount_def native_chain using assms by simp
  have spec: "num_or (native_amount_spec req) (js_lit (1 / 100)) =
      (case find truthy ?vs of None \<Rightarrow> js_lit (1 / 100)
       | Some v \<Rightarrow> num_or (parseFloat v) (js_lit (1 / 100)))"
    unfolding native_amount_spec_def
    by (cases "find truthy ?vs") (simp_all add: num_or_def)
  have none: "ethAmount req b = Math_min (js_lit (1 / 100)) ?r"
    if "find truthy ?vs = None"
    unfolding code that by simp
  have some: "ethAmount req b = Math_min n ?r"
    if f: "find truthy ?vs = Some (Num n)"
  proof -
    have "truthy (Num n)"
      using f by (rule find_holds)
    then have "num_or (parseFloat (Num n)) (js_lit (1 / 100)) = n"
      by (simp add: num_or_def)
    then show ?thesis
      unfolding code f by simp
  qed
  from code spec none some show ?thesis
    by simp
qed

text \<open>The theorem at work, from the request to the response.\<close>

theorem native_amount_witness:
  "ethAmount (empty_body\<lparr>amountETH := Num (js_lit (2 / 100))\<rparr>) (balanceETH_of (10 ^ 16)) = js_lit (8 / 1000)
   \<and> fst (universalConvert (calm_world (10 ^ 16)) start (empty_body\<lparr>amountETH := Num (js_lit (2 / 100))\<rparr>)) =
       \<lparr>status = 200,
        body = Success_body
          \<lparr>res_success = True, res_txHash = ''0xhash'', res_hash = ''0xhash'',
           res_transactionHash = ''0xhash'', res_from = ''0xSigner'', res_to = Str TREASURY,
           res_amount = js_lit (8 / 1000), res_amountUSD = js_mul (js_lit (8 / 1000)) (js_lit 3450),
           res_blockNumber = 19000000, res_gasUsed = ''21000''\<rparr>\<rparr>"
proof -
  let ?req = "empty_body\<lparr>amountETH := Num (js_lit (2 / 100))\<rparr>"
  have l2: "js_lit (2 / 100) = Fin (5764607523034235 / 288230376151711744)"
    by (simp add: js_lit_def fl_eval)
  have l8: "js_lit (8 / 1000) = Fin (1152921504606847 / 144115188075855872)"
    by (simp add: js_lit_def fl_eval)
  have bal: "balanceETH_of (10 ^ 16) = Fin (5764607523034235 / 576460752303423488)"
    by (simp add: balanceETH_of_def fl_eval)
  have rest: "js_sub (Fin (5764607523034235 / 576460752303423488))
      (Fin (1152921504606847 / 576460752303423488)) = Fin (1152921504606847 / 144115188075855872)"
    by (simp add: fl_eval)
  have mode: "\<not> truthy (percentage ?req)" "\<not> truthy (amountUSD ?req)"
    by (simp_all add: empty_body_def)
  have first: "find truthy [amountETH ?req, amount ?req, value' ?req, eth ?req]
      = Some (Num (Fin (5764607523034235 / 288230376151711744)))"
    unfolding l2 by simp
  have "ethAmount ?req (balanceETH_of (10 ^ 16)) =
      Math_min (Fin (5764607523034235 / 288230376151711744))
        (js_sub (balanceETH_of (10 ^ 16)) (js_lit (2 / 1000)))"
    using native_amount [OF mode] first by blast
  then have "ethAmount ?req (balanceETH_of (10 ^ 16)) = js_lit (8 / 1000)"
    unfolding bal lit_reserve rest l8 by (simp add: Math_min_def)
  with transfer_native_example show ?thesis
    by (rule conjI [rotated])
qed

text \<open>
  Stated for every first non-empty alias, the property fails when that alias reads as 0: for
  \<open>{amountETH: "0"}\<close> and a balance of 1 ether the first non-empty value is the string
  \<open>"0"\<close>, which stands for the amount 0, but the handler takes the fallback 0.01 and
  makes the transfer.
\<close>

theorem string_zero_counterexample:
  "find truthy [amountETH (empty_body\<lparr>amountETH := Str ''0''\<rparr>), amount (empty_body\<lparr>amountETH := Str ''0''\<rparr>),
       value' (empty_body\<lparr>amountETH := Str ''0''\<rparr>), eth (empty_body\<lparr>amountETH := Str ''0''\<rparr>)]
     = Some (Str ''0'')
   \<and> native_amount_spec (empty_body\<lparr>amountETH := Str ''0''\<rparr>) = Fin 0
   \<and> Math_min (native_amount_spec (empty_body\<lparr>amountETH := Str ''0''\<rparr>))
       (js_sub (balanceETH_of (10 ^ 18)) (js_lit (2 / 1000))) = Fin 0
   \<and> ethAmount (empty_body\<lparr>amountETH := Str ''0''\<rparr>) (balanceETH_of (10 ^ 18)) = js_lit (1 / 100)
   \<and> status (fst (universalConvert (calm_world (10 ^ 18)) start (empty_body\<lparr>amountETH := Str ''0''\<rparr>))) = 200"
proof -
  let ?req = "empty_body\<lparr>amountETH := Str ''0''\<rparr>"
  have first: "find truthy [amountETH ?req, amount ?req, value' ?req, eth ?req] = Some (Str ''0'')"
    by simp
  have zero: "parseFloat (Str ''0'') = Fin 0"
    by (simp add: parseFloat_string_def is_space_def is_digit_def digits_val_def digit_val_def
        exponent_part_def pow10_def fl_def round_double_def)
  have spec: "native_amount_spec ?req = Fin 0"
    unfolding native_amount_spec_def first using zero by simp
  have rest: "js_sub (Fin 1) (Fin (1152921504606847 / 576460752303423488))
      = Fin (4494592428115755 / 4503599627370496)"
    by (simp add: fl_eval)
  have stated: "Math_min (native_amount_spec ?req) (js_sub (Fin 1) (js_lit (2 / 1000))) = Fin 0"
    unfolding spec lit_eval rest by (simp add: Math_min_def)
  have mode: "\<not> truthy (percentage ?req)" "\<not> truthy (amountUSD ?req)"
    by (simp_all add: empty_body_def)
  have chain: "num_or (parseFloat (js_or (js_or (js_or (amountETH ?req) (amount ?req)) (value' ?req)) (eth ?req)))
      (Fin (5764607523034235 / 576460752303423488)) = Fin (5764607523034235 / 576460752303423488)"
    unfolding native_chain first using zero by (simp add: num_or_def)
  have amt: "ethAmount ?req (Fin 1) = Fin (5764607523034235 / 576460752303423488)"
    unfolding ethAmount_def lit_eval chain rest using mode by (simp add: Math_min_def)
  have res: "resolveAmount ?req (Fin 1) = Inr (Fin (5764607523034235 / 576460752303423488))"
    unfolding resolveAmount_def amt lit_eval by (simp add: js_le_def)
  have fixed: "toFixed 8 (Fin (5764607523034235 / 576460752303423488)) = Text ''0.01000000''"
    by (simp add: text_eval)
  have wei: "parseEther (toFixed 8 (Fin (5764607523034235 / 576460752303423488))) = Inr 10000000000000000"
    unfolding fixed by (simp add: text_eval)
  have "status (fst (universalConvert (calm_world (10 ^ 18)) start ?req)) = 200"
    unfolding universalConvert_calm balance_1 res sum.case submit_calm [OF wei] by simp
  with first spec stated amt show ?thesis
    unfolding balance_1 lit_eval by simp
qed

section \<open>Destination\<close>

lemma first_nonempty_Cons:
  "first_nonempty (v # vs) d = (if truthy v then v else first_nonempty vs d)"
  by (simp add: first_nonempty_def)

lemma first_nonempty_Nil: "first_nonempty [] d = d"
  by (simp add: first_nonempty_def)

text \<open>
  C6. The destination is the first non-empty field in the order \<open>to\<close>, \<open>toAddress\<close>,
  \<open>treasury\<close>, \<open>recipient\<close>, \<open>coinbaseWallet\<close>, \<open>feeRecipient\<close>, and the hard-coded
  treasury address when all are empty; a string field is non-empty exactly when it is not
  the empty string; the body with treasury 0xAAA and recipient 0xBBB resolves to 0xAAA.
\<close>

theorem destination_first_nonempty:
  "destination req =
     first_nonempty
       [to req, toAddress req, treasury req, recipient req, coinbaseWallet req, feeRecipient req]
       (Str TREASURY)
   \<and> truthy (Str s) = (s \<noteq> [])
   \<and> destination (empty_body\<lparr>treasury := Str ''0xAAA'', recipient := Str ''0xBBB''\<rparr>) = Str ''0xAAA''
   \<and> destination empty_body = Str ''0x4024Fd78E2AD5532FBF3ec2B3eC83870FAe45fC7''"
proof -
  have chain: "destination req =
      first_nonempty
        [to req, toAddress req, treasury req, recipient req, coinbaseWallet req, feeRecipient req]
        (Str TREASURY)" for req
    by (simp add: destination_def js_or_def first_nonempty_Cons first_nonempty_Nil)
  have example: "destination (empty_body\<lparr>treasury := Str ''0xAAA'', recipient := Str ''0xBBB''\<rparr>) = Str ''0xAAA''"
    unfolding chain by (simp add: first_nonempty_Cons empty_body_def)
  have default: "destination empty_body = Str ''0x4024Fd78E2AD5532FBF3ec2B3eC83870FAe45fC7''"
    unfolding chain by (simp add: first_nonempty_Cons first_nonempty_Nil empty_body_def TREASURY_def)
  from chain example default show ?thesis
    by simp
qed

section \<open>Fee strategy\<close>

text \<open>
  The handler tests \<open>feeData.maxFeePerGas\<close> for truthiness, so a bigint 0 would count as
  no maximum fee. The provider never reports it: ethers leaves \<open>maxFeePerGas\<close> \<open>null\<close>
  unless the latest block has a base fee, and otherwise sets it to twice the base fee
  plus a priority fee.
\<close>

lemma zero_max_fee_is_legacy:
  "maxFeePerGas fd = Some 0 \<Longrightarrow> tx_type (buildTx dest v nonce fd) = Absent"
  by (simp add: buildTx_def truthy_bigint_def)

text \<open>
  C7. The transaction is a function of the fee data. When the fee data has a
  \<open>maxFeePerGas\<close>, the transaction has type 2 and carries \<open>maxFeePerGas\<close> and
  \<open>maxPriorityFeePerGas\<close> of the fee data and no \<open>gasPrice\<close>. When it has none, the
  transaction has no type and carries the \<open>gasPrice\<close> of the fee data only, so fee data
  with a gas price alone never gives a type 2 transaction. The handler signs exactly this
  transaction.
\<close>

theorem fee_shape:
  assumes "maxFeePerGas fd \<noteq> Some 0"
  shows "(maxFeePerGas fd \<noteq> None \<longrightarrow>
            buildTx dest v nonce fd =
              \<lparr>tx_to = dest, tx_value = v, tx_nonce = nonce, tx_gasLimit = 21000,
               tx_gasPrice = Absent,
               tx_maxFeePerGas = Present (maxFeePerGas fd),
               tx_maxPriorityFeePerGas = Present (maxPriorityFeePerGas fd),
               tx_type = Present 2, tx_chainId = 1\<rparr>)
         \<and> (maxFeePerGas fd = None \<longrightarrow>
            buildTx dest v nonce fd =
              \<lparr>tx_to = dest, tx_value = v, tx_nonce = nonce, tx_gasLimit = 21000,
               tx_gasPrice = Present (gasPrice fd),
               tx_maxFeePerGas = Absent,
               tx_maxPriorityFeePerGas = Absent,
               tx_type = Absent, tx_chainId = 1\<rparr>)
         \<and> (getFeeData w url = Inr fd \<and> getTransactionCount w url (address wl) = Inr nonce \<and>
             parseEther (toFixed 8 amt) = Inr v \<and>
             signTransaction w wl (buildTx dest v nonce fd) = Inl e \<longrightarrow>
             submit w url wl dest amt = catch e)"
proof (intro conjI impI)
  assume "maxFeePerGas fd \<noteq> None"
  with assms have "truthy_bigint (maxFeePerGas fd)"
    by (auto simp: truthy_bigint_def)
  then show "buildTx dest v nonce fd =
      \<lparr>tx_to = dest, tx_value = v, tx_nonce = nonce, tx_gasLimit = 21000,
       tx_gasPrice = Absent,
       tx_maxFeePerGas = Present (maxFeePerGas fd),
       tx_maxPriorityFeePerGas = Present (maxPriorityFeePerGas fd),
       tx_type = Present 2, tx_chainId = 1\<rparr>"
    by (simp add: buildTx_def)
next
  assume "maxFeePerGas fd = None"
  then have "\<not> truthy_bigint (maxFeePerGas fd)"
    by (simp add: truthy_bigint_def)
  then show "buildTx dest v nonce fd =
      \<lparr>tx_to = dest, tx_value = v, tx_nonce = nonce, tx_gasLimit = 21000,
       tx_gasPrice = Present (gasPrice fd),
       tx_maxFeePerGas = Absent,
       tx_maxPriorityFeePerGas = Absent,
       tx_type = Absent, tx_chainId = 1\<rparr>"
    by (simp add: buildTx_def)
next
  assume "getFeeData w url = Inr fd \<and> getTransactionCount w url (address wl) = Inr nonce \<and>
      parseEther (toFixed 8 amt) = Inr v \<and> signTransaction w wl (buildTx dest v nonce fd) = Inl e"
  then show "submit w url wl dest amt = catch e"
    by (simp add: submit_def)
qed

text \<open>
  The theorem at work: fee data with a maximum fee of 50 gives a type 2 transaction,
  fee data with a gas price only gives a legacy transaction.
\<close>

theorem fee_shape_witness:
  "buildTx (Str TREASURY) 8000000000000000 7
       \<lparr>gasPrice = Some 30, maxFeePerGas = Some 50, maxPriorityFeePerGas = Some 2\<rparr> =
     \<lparr>tx_to = Str TREASURY, tx_value = 8000000000000000, tx_nonce = 7, tx_gasLimit = 21000,
      tx_gasPrice = Absent, tx_maxFeePerGas = Present (Some 50),
      tx_maxPriorityFeePerGas = Present (Some 2), tx_type = Present 2, tx_chainId = 1\<rparr>
   \<and> buildTx (Str TREASURY) 8000000000000000 7
       \<lparr>gasPrice = Some 30, maxFeePerGas = None, maxPriorityFeePerGas = None\<rparr> =
     \<lparr>tx_to = Str TREASURY, tx_value = 8000000000000000, tx_nonce = 7, tx_gasLimit = 21000,
      tx_gasPrice = Present (Some 30), tx_maxFeePerGas = Absent,
      tx_maxPriorityFeePerGas = Absent, tx_type = Absent, tx_chainId = 1\<rparr>"
proof -
  let ?dyn = "\<lparr>gasPrice = Some 30, maxFeePerGas = Some 50, maxPriorityFeePerGas = Some (2::int)\<rparr>"
  let ?leg = "\<lparr>gasPrice = Some 30, maxFeePerGas = None, maxPriorityFeePerGas = (None::int option)\<rparr>"
  have d: "maxFeePerGas ?dyn \<noteq> Some 0" "maxFeePerGas ?dyn \<noteq> None"
    by simp_all
  have l: "maxFeePerGas ?leg \<noteq> Some 0" "maxFeePerGas ?leg = None"
    by simp_all
  from fee_shape [OF d(1), where dest = "Str TREASURY" and v = 8000000000000000 and nonce = 7] d(2)
  have "buildTx (Str TREASURY) 8000000000000000 7 ?dyn =
      \<lparr>tx_to = Str TREASURY, tx_value = 8000000000000000, tx_nonce = 7, tx_gasLimit = 21000,
       tx_gasPrice = Absent, tx_maxFeePerGas = Present (maxFeePerGas ?dyn),
       tx_maxPriorityFeePerGas = Present (maxPriorityFeePerGas ?dyn), tx_type = Present 2, tx_chainId = 1\<rparr>"
    by blast
  moreover
  from fee_shape [OF l(1), where dest = "Str TREASURY" and v = 8000000000000000 and nonce = 7] l(2)
  have "buildTx (Str TREASURY) 8000000000000000 7 ?leg =
      \<lparr>tx_to = Str TREASURY, tx_value = 8000000000000000, tx_nonce = 7, tx_gasLimit = 21000,
       tx_gasPrice = Present (gasPrice ?leg), tx_maxFeePerGas = Absent,
       tx_maxPriorityFeePerGas = Absent, tx_type = Absent, tx_chainId = 1\<rparr>"
    by blast
  ultimately show ?thesis
    by simp
qed

section \<open>Connection bootstrap\<close>

lemma bound_provider: "bound w (st\<lparr>provider := p\<rparr>) u = bound w st u"
  by (simp add: bound_def split: option.splits)

lemma initProvider_loop_accepts:
  "initProvider_loop w urls st =
     (case dropWhile (\<lambda>u. \<not> probe_accepted w u) urls of
        [] \<Rightarrow>
          (False, (if urls = [] then st else st\<lparr>provider := Some (last urls)\<rparr>),
           map (\<lambda>u. (u, 5000)) urls)
      | u # rest \<Rightarrow>
          (True, bound w st u,
           map (\<lambda>u. (u, 5000)) (takeWhile (\<lambda>u. \<not> probe_accepted w u) urls @ [u])))"
proof (induction urls arbitrary: st)
  case Nil
  show ?case by simp
next
  case (Cons rpc rest)
  show ?case
  proof (cases "probe_accepted w rpc")
    case True
    then show ?thesis
      by (auto simp: probe_accepted_def probe_def bound_def Let_def split: option.splits if_splits)
  next
    case False
    then have step: "initProvider_loop w (rpc # rest) st =
        (case initProvider_loop w rest (st\<lparr>provider := Some rpc\<rparr>) of
           (ok, st', probes) \<Rightarrow> (ok, st', (rpc, 5000) # probes))"
      by (auto simp: probe_accepted_def probe_def Let_def split: option.splits if_splits)
    note IH = Cons.IH [of "st\<lparr>provider := Some rpc\<rparr>"]
    show ?thesis
    proof (cases "dropWhile (\<lambda>u. \<not> probe_accepted w u) rest")
      case Nil
      have "dropWhile (\<lambda>u. \<not> probe_accepted w u) (rpc # rest) = []"
        using False Nil by simp
      then show ?thesis
        unfolding step IH Nil by simp
    next
      case (Cons u us)
      then have ne: "rest \<noteq> []" by auto
      have "dropWhile (\<lambda>u. \<not> probe_accepted w u) (rpc # rest) = u # us"
        using False Cons by simp
      then show ?thesis
        unfolding step IH Cons bound_provider using False by simp
    qed
  qed
qed

text \<open>
  C8, as the code has it. The bootstrap probes the endpoints in list order, each against
  a timeout of 5000 ms, up to and including the first accepted one, binds that one and
  returns true; the probes made are a prefix of the list, which has no repetition, so no
  endpoint is probed twice and none after the bound one. When no endpoint is accepted it
  has probed each once and returns false. An endpoint is accepted when its probe is
  fulfilled in time and the wallet constructor does not throw; with no key, an empty key
  or a key the constructor takes, that is when its probe is fulfilled in time.
\<close>

theorem initProvider_first_accepted:
  "initProvider w st =
     (case dropWhile (\<lambda>u. \<not> probe_accepted w u) RPC_URLS of
        [] \<Rightarrow> (False, st\<lparr>provider := Some (last RPC_URLS)\<rparr>, map (\<lambda>u. (u, 5000)) RPC_URLS)
      | u # rest \<Rightarrow>
          (True, bound w st u,
           map (\<lambda>u. (u, 5000)) (takeWhile (\<lambda>u. \<not> probe_accepted w u) RPC_URLS @ [u])))
   \<and> distinct RPC_URLS
   \<and> (PRIVATE_KEY w = None \<or> PRIVATE_KEY w = Some [] \<or>
       (\<exists>key a. PRIVATE_KEY w = Some key \<and> Wallet_address w key = Some a) \<longrightarrow>
       probe_accepted w rpc = race (getBlockNumber w rpc) 5000)"
proof (intro conjI impI)
  have "RPC_URLS \<noteq> []"
    by (simp add: RPC_URLS_def)
  then show "initProvider w st =
     (case dropWhile (\<lambda>u. \<not> probe_accepted w u) RPC_URLS of
        [] \<Rightarrow> (False, st\<lparr>provider := Some (last RPC_URLS)\<rparr>, map (\<lambda>u. (u, 5000)) RPC_URLS)
      | u # rest \<Rightarrow>
          (True, bound w st u,
           map (\<lambda>u. (u, 5000)) (takeWhile (\<lambda>u. \<not> probe_accepted w u) RPC_URLS @ [u])))"
    unfolding initProvider_def initProvider_loop_accepts by simp
  show "distinct RPC_URLS"
    by (simp add: RPC_URLS_def)
  assume "PRIVATE_KEY w = None \<or> PRIVATE_KEY w = Some [] \<or>
      (\<exists>key a. PRIVATE_KEY w = Some key \<and> Wallet_address w key = Some a)"
  then show "probe_accepted w rpc = race (getBlockNumber w rpc) 5000"
    by (auto simp: probe_accepted_def)
qed

text \<open>
  The theorem at work: the first two endpoints never answer and the third does; the
  bootstrap probes the three in order, binds the third and returns true.
\<close>

theorem initProvider_first_accepted_witness:
  "initProvider slow_world start =
     (True,
      \<lparr>provider = Some ''https://rpc.ankr.com/eth'', wallet = Some \<lparr>address = ''0xSigner''\<rparr>\<rparr>,
      [(''https://ethereum-rpc.publicnode.com'', 5000), (''https://eth.drpc.org'', 5000),
       (''https://rpc.ankr.com/eth'', 5000)])"
proof -
  have key: "PRIVATE_KEY slow_world = None \<or> PRIVATE_KEY slow_world = Some [] \<or>
      (\<exists>key a. PRIVATE_KEY slow_world = Some key \<and> Wallet_address slow_world key = Some a)"
    by (simp add: slow_world_def calm_world_def)
  have accepted: "probe_accepted slow_world rpc = race (getBlockNumber slow_world rpc) 5000" for rpc
    using initProvider_first_accepted [of slow_world] key by blast
  have probes: "race (getBlockNumber slow_world rpc) 5000 =
      (rpc \<noteq> ''https://ethereum-rpc.publicnode.com'' \<and> rpc \<noteq> ''https://eth.drpc.org'')" for rpc
    by (simp add: slow_world_def race_def)
  have rest: "dropWhile (\<lambda>u. \<not> probe_accepted slow_world u) RPC_URLS =
      [''https://rpc.ankr.com/eth'', ''https://eth.llamarpc.com'', ''https://1rpc.io/eth'',
       ''https://cloudflare-eth.com'']"
    unfolding accepted probes by (simp add: RPC_URLS_def)
  have before: "takeWhile (\<lambda>u. \<not> probe_accepted slow_world u) RPC_URLS =
      [''https://ethereum-rpc.publicnode.com'', ''https://eth.drpc.org'']"
    unfolding accepted probes by (simp add: RPC_URLS_def)
  have "initProvider slow_world start =
      (True, bound slow_world start ''https://rpc.ankr.com/eth'',
       map (\<lambda>u. (u, 5000)) ([''https://ethereum-rpc.publicnode.com'', ''https://eth.drpc.org'']
         @ [''https://rpc.ankr.com/eth'']))"
    using initProvider_first_accepted [of slow_world start] unfolding rest before by simp
  then show ?thesis
    by (simp add: bound_def slow_world_def calm_world_def)
qed

text \<open>
  Stated for every configuration, the property fails with a key that the wallet
  constructor rejects: the throw
  lands in the same \<open>catch\<close> as a failed probe. Every probe is fulfilled after 100 ms,
  yet the bootstrap binds none, probes all six endpoints and returns false.
\<close>

theorem bad_key_counterexample:
  "race (getBlockNumber bad_key_world ''https://ethereum-rpc.publicnode.com'') 5000
   \<and> initProvider bad_key_world start =
       (False, \<lparr>provider = Some ''https://cloudflare-eth.com'', wallet = None\<rparr>,
        [(''https://ethereum-rpc.publicnode.com'', 5000), (''https://eth.drpc.org'', 5000),
         (''https://rpc.ankr.com/eth'', 5000), (''https://eth.llamarpc.com'', 5000),
         (''https://1rpc.io/eth'', 5000), (''https://cloudflare-eth.com'', 5000)])"
  by (simp add: initProvider_def RPC_URLS_def bad_key_world_def calm_world_def start_def probe_def
      race_def)

section \<open>The fiat amount of the response\<close>

text \<open>
  C9, as the code has it. In every success response \<open>amountUSD\<close> is \<open>amount * 3450\<close>, and
  \<open>amount\<close> is the resolved amount. For a fiat request whose field is a number \<open>u\<close> and whose
  converted amount \<open>u / 3450\<close> is not above balance minus 0.002, the response carries
  \<open>(u / 3450) * 3450\<close> in Number arithmetic: the division and the multiplication each
  round, so this is \<open>u\<close> for some amounts and not for others.
\<close>

theorem amountUSD_field:
  assumes "provider (ensure w st) = Some url"
    and "wallet (ensure w st) = Some wl"
    and "getBalance w url (address wl) = Inr balance"
    and "body (fst (universalConvert w st req)) = Success_body s"
  shows "res_amountUSD s = js_mul (res_amount s) (js_lit 3450)
         \<and> res_amount s = ethAmount req (balanceETH_of balance)
         \<and> (\<not> truthy (percentage req) \<and> amountUSD req = Num u \<and> truthy (Num u) \<and>
             \<not> js_lt (js_sub (balanceETH_of balance) (js_lit (2 / 1000))) (js_div u (js_lit 3450)) \<longrightarrow>
             res_amount s = js_div u (js_lit 3450)
             \<and> res_amountUSD s = js_mul (js_div u (js_lit 3450)) (js_lit 3450))"
proof -
  let ?b = "balanceETH_of balance"
  from success_resolved [OF assms]
  obtain amt where r: "resolveAmount req ?b = Inr amt" and n: "amt \<noteq> NaN"
    and a: "res_amount s = amt" and usd: "res_amountUSD s = js_mul amt (js_lit 3450)"
    by blast
  from r have amt: "amt = ethAmount req ?b"
    by (simp add: resolveAmount_Inr)
  have fiat: "res_amount s = js_div u (js_lit 3450)"
    if "\<not> truthy (percentage req)" "amountUSD req = Num u" "truthy (Num u)"
      "\<not> js_lt (js_sub ?b (js_lit (2 / 1000))) (js_div u (js_lit 3450))"
  proof -
    have "amt = Math_min (js_div u (js_lit 3450)) (js_sub ?b (js_lit (2 / 1000)))"
      unfolding amt ethAmount_def using that(1-3) by simp
    with n that(4) show ?thesis
      unfolding a by (auto simp: Math_min_def split: if_splits)
  qed
  from usd a amt fiat show ?thesis
    by auto
qed

text \<open>The theorem at work: a fiat amount of 100 at a balance of 1 ether comes back as 100.\<close>

theorem amountUSD_field_witness:
  "fst (universalConvert (calm_world (10 ^ 18)) start (empty_body\<lparr>amountUSD := Num (Fin 100)\<rparr>)) =
     \<lparr>status = 200,
      body = Success_body
        \<lparr>res_success = True, res_txHash = ''0xhash'', res_hash = ''0xhash'',
         res_transactionHash = ''0xhash'', res_from = ''0xSigner'', res_to = Str TREASURY,
         res_amount = js_div (Fin 100) (js_lit 3450), res_amountUSD = Fin 100,
         res_blockNumber = 19000000, res_gasUsed = ''21000''\<rparr>\<rparr>
   \<and> js_mul (js_div (Fin 100) (js_lit 3450)) (js_lit 3450) = Fin 100"
proof -
  let ?req = "empty_body\<lparr>amountUSD := Num (Fin 100)\<rparr>"
  let ?a = "Fin (8354503656571355 / 288230376151711744)"
  let ?s = "\<lparr>res_success = True, res_txHash = ''0xhash'', res_hash = ''0xhash'',
         res_transactionHash = ''0xhash'', res_from = ''0xSigner'', res_to = Str TREASURY,
         res_amount = ?a, res_amountUSD = js_mul ?a (js_lit 3450),
         res_blockNumber = 19000000, res_gasUsed = ''21000''\<rparr>"
  have quotient: "js_div (Fin 100) (Fin 3450) = ?a"
    by (simp add: fl_eval)
  have product: "js_mul ?a (Fin 3450) = Fin 100"
    by (simp add: fl_eval)
  have rest: "js_sub (Fin 1) (Fin (1152921504606847 / 576460752303423488))
      = Fin (4494592428115755 / 4503599627370496)"
    by (simp add: fl_eval)
  have amt: "ethAmount ?req (Fin 1) = ?a"
    unfolding ethAmount_def lit_eval rest
    by (simp add: empty_body_def quotient Math_min_def del: js_div.simps)
  have res: "resolveAmount ?req (Fin 1) = Inr ?a"
    unfolding resolveAmount_def amt lit_eval by (simp add: js_le_def)
  have fixed: "toFixed 8 ?a = Text ''0.02898551''"
    by (simp add: text_eval)
  have wei: "parseEther (toFixed 8 ?a) = Inr 28985510000000000"
    unfolding fixed by (simp add: text_eval)
  have dest: "destination ?req = Str TREASURY"
    by (simp add: destination_def empty_body_def js_or_def)
  have answer: "fst (universalConvert (calm_world (10 ^ 18)) start ?req) = \<lparr>status = 200, body = Success_body ?s\<rparr>"
    unfolding universalConvert_calm balance_1 res sum.case submit_calm [OF wei] dest by simp
  then have ok: "body (fst (universalConvert (calm_world (10 ^ 18)) start ?req)) = Success_body ?s"
    by simp
  have fiat: "\<not> truthy (percentage ?req) \<and> amountUSD ?req = Num (Fin 100) \<and> truthy (Num (Fin 100)) \<and>
      \<not> js_lt (js_sub (balanceETH_of (10 ^ 18)) (js_lit (2 / 1000))) (js_div (Fin 100) (js_lit 3450))"
    unfolding balance_1 lit_eval rest quotient by (simp add: empty_body_def)
  from amountUSD_field [OF calm_context [where b = "10 ^ 18"] ok, where u = "Fin 100"] fiat
  have "res_amountUSD ?s = js_mul (js_div (Fin 100) (js_lit 3450)) (js_lit 3450)"
    by blast
  then have round_trip: "js_mul (js_div (Fin 100) (js_lit 3450)) (js_lit 3450) = Fin 100"
    unfolding lit_eval quotient product by simp
  from answer round_trip show ?thesis
    unfolding lit_eval quotient product by simp
qed

text \<open>
  Stated for every fiat amount, the round trip fails for 27 at a balance of 1 ether, where the
  converted amount is not clamped: the response carries 27.000000000000004.
\<close>

theorem fiat_round_trip_counterexample:
  "\<not> js_lt (js_sub (balanceETH_of (10 ^ 18)) (js_lit (2 / 1000))) (js_div (Fin 27) (js_lit 3450))
   \<and> fst (universalConvert (calm_world (10 ^ 18)) start (empty_body\<lparr>amountUSD := Num (Fin 27)\<rparr>)) =
     \<lparr>status = 200,
      body = Success_body
        \<lparr>res_success = True, res_txHash = ''0xhash'', res_hash = ''0xhash'',
         res_transactionHash = ''0xhash'', res_from = ''0xSigner'', res_to = Str TREASURY,
         res_amount = Fin (1127857993637133 / 144115188075855872),
         res_amountUSD = Fin (7599824371187713 / 281474976710656),
         res_blockNumber = 19000000, res_gasUsed = ''21000''\<rparr>\<rparr>
   \<and> Fin (7599824371187713 / 281474976710656) \<noteq> Fin 27"
proof -
  let ?req = "empty_body\<lparr>amountUSD := Num (Fin 27)\<rparr>"
  let ?a = "Fin (1127857993637133 / 144115188075855872)"
  have quotient: "js_div (Fin 27) (Fin 3450) = ?a"
    by (simp add: fl_eval)
  have product: "js_mul ?a (Fin 3450) = Fin (7599824371187713 / 281474976710656)"
    by (simp add: fl_eval)
  have rest: "js_sub (Fin 1) (Fin (1152921504606847 / 576460752303423488))
      = Fin (4494592428115755 / 4503599627370496)"
    by (simp add: fl_eval)
  have free: "\<not> js_lt (Fin (4494592428115755 / 4503599627370496)) ?a"
    by simp
  have amt: "ethAmount ?req (Fin 1) = ?a"
    unfolding ethAmount_def lit_eval rest
    by (simp add: empty_body_def quotient Math_min_def del: js_div.simps)
  have res: "resolveAmount ?req (Fin 1) = Inr ?a"
    unfolding resolveAmount_def amt lit_eval by (simp add: js_le_def)
  have fixed: "toFixed 8 ?a = Text ''0.00782609''"
    by (simp add: text_eval)
  have wei: "parseEther (toFixed 8 ?a) = Inr 7826090000000000"
    unfolding fixed by (simp add: text_eval)
  have dest: "destination ?req = Str TREASURY"
    by (simp add: destination_def empty_body_def js_or_def)
  have answer: "fst (universalConvert (calm_world (10 ^ 18)) start ?req) =
      \<lparr>status = 200,
       body = Success_body
         \<lparr>res_success = True, res_txHash = ''0xhash'', res_hash = ''0xhash'',
          res_transactionHash = ''0xhash'', res_from = ''0xSigner'', res_to = Str TREASURY,
          res_amount = ?a, res_amountUSD = Fin (7599824371187713 / 281474976710656),
          res_blockNumber = 19000000, res_gasUsed = ''21000''\<rparr>\<rparr>"
    unfolding universalConvert_calm balance_1 res sum.case submit_calm [OF wei] dest lit_eval product
    by simp
  have differs: "Fin (7599824371187713 / 281474976710656) \<noteq> Fin 27"
    by simp
  from free answer differs show ?thesis
    unfolding balance_1 lit_eval rest quotient by simp
qed

section \<open>Zero counts as absent\<close>

text \<open>
  C10, as the code has it. A field whose value is the number 0 acts as an absent field:
  in each of the fields \<open>percentage\<close>, \<open>amountUSD\<close>, \<open>amountETH\<close>, \<open>amount\<close>, \<open>value\<close> and
  \<open>eth\<close> it gives the same amount and the same response as the request without the field.
  So percentage 0 leaves the choice to the next mode, fiat if its field is truthy and
  native otherwise, and a request whose only amount field is a native amount of 0 gets the
  minimum of the fallback 0.01 and balance minus 0.002, which is 0.01 at a balance of
  1 ether.
\<close>

theorem zero_is_absent:
  "ethAmount (req\<lparr>percentage := Num (Fin 0)\<rparr>) b = ethAmount (req\<lparr>percentage := Undefined\<rparr>) b
   \<and> ethAmount (req\<lparr>amountUSD := Num (Fin 0)\<rparr>) b = ethAmount (req\<lparr>amountUSD := Undefined\<rparr>) b
   \<and> ethAmount (req\<lparr>amountETH := Num (Fin 0)\<rparr>) b = ethAmount (req\<lparr>amountETH := Undefined\<rparr>) b
   \<and> ethAmount (req\<lparr>amount := Num (Fin 0)\<rparr>) b = ethAmount (req\<lparr>amount := Undefined\<rparr>) b
   \<and> ethAmount (req\<lparr>value' := Num (Fin 0)\<rparr>) b = ethAmount (req\<lparr>value' := Undefined\<rparr>) b
   \<and> ethAmount (req\<lparr>eth := Num (Fin 0)\<rparr>) b = ethAmount (req\<lparr>eth := Undefined\<rparr>) b
   \<and> universalConvert w st (req\<lparr>percentage := Num (Fin 0)\<rparr>)
       = universalConvert w st (req\<lparr>percentage := Undefined\<rparr>)
   \<and> universalConvert w st (req\<lparr>amountETH := Num (Fin 0)\<rparr>)
       = universalConvert w st (req\<lparr>amountETH := Undefined\<rparr>)
   \<and> ethAmount (req\<lparr>percentage := Num (Fin 0)\<rparr>) b =
       (if truthy (amountUSD req)
        then Math_min (js_div (parseFloat (amountUSD req)) (js_lit 3450)) (js_sub b (js_lit (2 / 1000)))
        else Math_min
               (num_or
                  (parseFloat (js_or (js_or (js_or (amountETH req) (amount req)) (value' req)) (eth req)))
                  (js_lit (1 / 100)))
               (js_sub b (js_lit (2 / 1000))))
   \<and> ethAmount (empty_body\<lparr>amountETH := Num (Fin 0)\<rparr>) b
       = Math_min (js_lit (1 / 100)) (js_sub b (js_lit (2 / 1000)))
   \<and> ethAmount (empty_body\<lparr>amount := Num (Fin 0)\<rparr>) b
       = Math_min (js_lit (1 / 100)) (js_sub b (js_lit (2 / 1000)))
   \<and> ethAmount (empty_body\<lparr>value' := Num (Fin 0)\<rparr>) b
       = Math_min (js_lit (1 / 100)) (js_sub b (js_lit (2 / 1000)))
   \<and> ethAmount (empty_body\<lparr>eth := Num (Fin 0)\<rparr>) b
       = Math_min (js_lit (1 / 100)) (js_sub b (js_lit (2 / 1000)))
   \<and> ethAmount (empty_body\<lparr>amountETH := Num (Fin 0)\<rparr>) (balanceETH_of (10 ^ 18)) = js_lit (1 / 100)"
proof -
  have fields: "ethAmount (req\<lparr>percentage := Num (Fin 0)\<rparr>) c = ethAmount (req\<lparr>percentage := Undefined\<rparr>) c"
    "ethAmount (req\<lparr>amountUSD := Num (Fin 0)\<rparr>) c = ethAmount (req\<lparr>amountUSD := Undefined\<rparr>) c"
    "ethAmount (req\<lparr>amountETH := Num (Fin 0)\<rparr>) c = ethAmount (req\<lparr>amountETH := Undefined\<rparr>) c"
    "ethAmount (req\<lparr>amount := Num (Fin 0)\<rparr>) c = ethAmount (req\<lparr>amount := Undefined\<rparr>) c"
    "ethAmount (req\<lparr>value' := Num (Fin 0)\<rparr>) c = ethAmount (req\<lparr>value' := Undefined\<rparr>) c"
    "ethAmount (req\<lparr>eth := Num (Fin 0)\<rparr>) c = ethAmount (req\<lparr>eth := Undefined\<rparr>) c" for c
    by (simp_all add: ethAmount_def js_or_def parseFloat_falsy num_or_def)
  have handler: "universalConvert w st (req\<lparr>percentage := Num (Fin 0)\<rparr>)
        = universalConvert w st (req\<lparr>percentage := Undefined\<rparr>)"
    "universalConvert w st (req\<lparr>amountETH := Num (Fin 0)\<rparr>)
        = universalConvert w st (req\<lparr>amountETH := Undefined\<rparr>)"
    by (rule universalConvert_cong, rule fields, simp add: destination_def)+
  have next_mode: "ethAmount (req\<lparr>percentage := Num (Fin 0)\<rparr>) b =
      (if truthy (amountUSD req)
       then Math_min (js_div (parseFloat (amountUSD req)) (js_lit 3450)) (js_sub b (js_lit (2 / 1000)))
       else Math_min
              (num_or
                 (parseFloat (js_or (js_or (js_or (amountETH req) (amount req)) (value' req)) (eth req)))
                 (js_lit (1 / 100)))
              (js_sub b (js_lit (2 / 1000))))"
    by (simp add: ethAmount_def)
  have only: "ethAmount (empty_body\<lparr>amountETH := Num (Fin 0)\<rparr>) c
      = Math_min (js_lit (1 / 100)) (js_sub c (js_lit (2 / 1000)))"
    "ethAmount (empty_body\<lparr>amount := Num (Fin 0)\<rparr>) c
      = Math_min (js_lit (1 / 100)) (js_sub c (js_lit (2 / 1000)))"
    "ethAmount (empty_body\<lparr>value' := Num (Fin 0)\<rparr>) c
      = Math_min (js_lit (1 / 100)) (js_sub c (js_lit (2 / 1000)))"
    "ethAmount (empty_body\<lparr>eth := Num (Fin 0)\<rparr>) c
      = Math_min (js_lit (1 / 100)) (js_sub c (js_lit (2 / 1000)))" for c
    by (simp_all add: ethAmount_def js_or_def num_or_def empty_body_def)
  have rest: "js_sub (Fin 1) (Fin (1152921504606847 / 576460752303423488))
      = Fin (4494592428115755 / 4503599627370496)"
    by (simp add: fl_eval)
  have one: "ethAmount (empty_body\<lparr>amountETH := Num (Fin 0)\<rparr>) (balanceETH_of (10 ^ 18)) = js_lit (1 / 100)"
    unfolding only(1) balance_1 lit_eval rest by (simp add: Math_min_def)
  from fields [of b] handler next_mode only [of b] one show ?thesis
    by (intro conjI)
qed

text \<open>
  Stated as a resolution to 0.01 at every balance, the property fails where the balance
  leaves less: at a balance of 0.01 ether the request \<open>{amountETH: 0}\<close> resolves to 0.008,
  which is sent, and at a balance of 0.002 ether it resolves to 0 and is answered with
  status 400.
\<close>

theorem zero_native_clamped_counterexample:
  "ethAmount (empty_body\<lparr>amountETH := Num (Fin 0)\<rparr>) (balanceETH_of (10 ^ 16)) = js_lit (8 / 1000)
   \<and> js_lit (8 / 1000) \<noteq> js_lit (1 / 100)
   \<and> fst (universalConvert (calm_world (10 ^ 16)) start (empty_body\<lparr>amountETH := Num (Fin 0)\<rparr>)) =
     \<lparr>status = 200,
      body = Success_body
        \<lparr>res_success = True, res_txHash = ''0xhash'', res_hash = ''0xhash'',
         res_transactionHash = ''0xhash'', res_from = ''0xSigner'', res_to = Str TREASURY,
         res_amount = js_lit (8 / 1000), res_amountUSD = js_mul (js_lit (8 / 1000)) (js_lit 3450),
         res_blockNumber = 19000000, res_gasUsed = ''21000''\<rparr>\<rparr>
   \<and> ethAmount (empty_body\<lparr>amountETH := Num (Fin 0)\<rparr>) (balanceETH_of (2 * 10 ^ 15)) = Fin 0
   \<and> fst (universalConvert (calm_world (2 * 10 ^ 15)) start (empty_body\<lparr>amountETH := Num (Fin 0)\<rparr>)) =
     \<lparr>status = 400,
      body = Error_balance_hint_body ''Insufficient after gas reserve'' (Text ''0.002000'')
               ''Gas is paid during execution - need 0.002 ETH minimum''\<rparr>"
proof -
  let ?req = "empty_body\<lparr>amountETH := Num (Fin 0)\<rparr>"
  have l8: "js_lit (8 / 1000) = Fin (1152921504606847 / 144115188075855872)"
    by (simp add: js_lit_def fl_eval)
  have bal: "balanceETH_of (10 ^ 16) = Fin (5764607523034235 / 576460752303423488)"
    by (simp add: balanceETH_of_def fl_eval)
  have rest: "js_sub (Fin (5764607523034235 / 576460752303423488))
      (Fin (1152921504606847 / 576460752303423488)) = Fin (1152921504606847 / 144115188075855872)"
    by (simp add: fl_eval)
  have amt: "ethAmount ?req (Fin (5764607523034235 / 576460752303423488))
      = Fin (1152921504606847 / 144115188075855872)"
    unfolding ethAmount_def lit_eval rest
    by (simp add: empty_body_def js_or_def num_or_def Math_min_def)
  have differs: "js_lit (8 / 1000) \<noteq> js_lit (1 / 100)"
    unfolding l8 lit_fallback by simp
  have res: "resolveAmount ?req (balanceETH_of (10 ^ 16)) = Inr (js_lit (8 / 1000))"
    unfolding resolveAmount_def bal amt lit_eval l8 by (simp add: js_le_def)
  have fixed: "toFixed 8 (js_lit (8 / 1000)) = Text ''0.00800000''"
    unfolding l8 by (simp add: text_eval)
  have wei: "parseEther (toFixed 8 (js_lit (8 / 1000))) = Inr 8000000000000000"
    unfolding fixed by (simp add: text_eval)
  have dest: "destination ?req = Str TREASURY"
    by (simp add: destination_def empty_body_def js_or_def)
  have sent: "fst (universalConvert (calm_world (10 ^ 16)) start ?req) =
     \<lparr>status = 200,
      body = Success_body
        \<lparr>res_success = True, res_txHash = ''0xhash'', res_hash = ''0xhash'',
         res_transactionHash = ''0xhash'', res_from = ''0xSigner'', res_to = Str TREASURY,
         res_amount = js_lit (8 / 1000), res_amountUSD = js_mul (js_lit (8 / 1000)) (js_lit 3450),
         res_blockNumber = 19000000, res_gasUsed = ''21000''\<rparr>\<rparr>"
    unfolding universalConvert_calm res sum.case submit_calm [OF wei] dest by simp
  have bal2: "balanceETH_of (2 * 10 ^ 15) = Fin (1152921504606847 / 576460752303423488)"
    by (simp add: balanceETH_of_def fl_eval)
  have rest2: "js_sub (Fin (1152921504606847 / 576460752303423488))
      (Fin (1152921504606847 / 576460752303423488)) = Fin 0"
    by (simp add: fl_eval)
  have amt2: "ethAmount ?req (Fin (1152921504606847 / 576460752303423488)) = Fin 0"
    unfolding ethAmount_def lit_eval rest2
    by (simp add: empty_body_def js_or_def num_or_def Math_min_def)
  have six: "toFixed 6 (Fin (1152921504606847 / 576460752303423488)) = Text ''0.002000''"
    by (simp add: text_eval)
  have res2: "resolveAmount ?req (Fin (1152921504606847 / 576460752303423488))
      = Inl (insufficient_response (Fin (1152921504606847 / 576460752303423488)))"
    unfolding resolveAmount_def amt2 lit_eval by (simp add: js_le_def)
  have refused: "fst (universalConvert (calm_world (2 * 10 ^ 15)) start ?req) =
     \<lparr>status = 400,
      body = Error_balance_hint_body ''Insufficient after gas reserve'' (Text ''0.002000'')
               ''Gas is paid during execution - need 0.002 ETH minimum''\<rparr>"
    unfolding universalConvert_calm bal2 res2 sum.case insufficient_response_def six by simp
  from amt differs sent amt2 refused show ?thesis
    unfolding bal bal2 l8 by simp
qed

end
